theory Spec2Isabelle
  imports Main "HOL-Library.Word"
begin

section \<open>The execution platform, as far as the contracts use it\<close>

text \<open>
  The three contracts (EnterprisePriceOracle, RiskManager, RebalanceEngine) are PyTeal
  expressions that compile to TEAL and run on the Algorand virtual machine. The embedding
  below evaluates those expressions directly:

  \<^item> every integer is an unsigned 64-bit value; \<open>+\<close> and \<open>*\<close> fail when the result does
    not fit, \<open>-\<close> fails when it would go below zero, \<open>/\<close> fails on a zero divisor;
  \<^item> \<open>Assert\<close> fails the program when its condition is zero. The source gives its
    assertions no message, so each one is labelled here with the error kind the
    specification names for that check;
  \<^item> a program that fails, or that returns zero, is rejected, and the ledger keeps none of
    its writes; a program that returns a non-zero value is approved and its writes are
    committed together;
  \<^item> local state exists only for accounts that have opted in; reading or writing the local
    state of any other account fails.

  A key that was never written reads as 0, so each state is a record with one 64-bit field
  per key. The limits of the platform on program cost and on the number of keys are not
  part of the embedding.
\<close>

type_synonym uint64 = "64 word"
type_synonym address = nat
type_synonym bytes = string

datatype error =
    Unauthorized
  | NotRegistered
  | CircuitBreakerActive
  | StalePrice
  | DeviationExceeded
  | SlippageExceeded
  | InvalidArgumentCount
  | InvalidFundingRate
  | GroupPaymentMismatch
  | IntOverflow
  | IntUnderflow
  | DivByZero
  | BtoiTooLong
  | ArgIndex
  | NoCondMatch

datatype OnComplete = NoOp | OptIn | CloseOut | ClearState | UpdateApplication | DeleteApplication

datatype TxnType = Payment | KeyRegistration | AssetConfig | AssetTransfer | AssetFreeze | ApplicationCall

text \<open>One transaction of the group, with the fields the contracts read through \<open>Gtxn\<close>.\<close>

record gtxn =
  type_enum :: TxnType
  receiver :: address
  amount :: uint64

text \<open>
  What a program can read about the call it runs in: the \<open>Txn\<close> fields of the calling
  transaction, the \<open>Global\<close> fields, and the transactions of its group (the calling
  transaction is one of them, so the group is never empty).
\<close>

record call =
  sender :: address
  application_id :: nat
  on_completion :: OnComplete
  application_args :: "bytes list"
  latest_timestamp :: uint64
  creator_address :: address
  current_application_address :: address
  group :: "gtxn list"

definition group_size :: "call \<Rightarrow> nat" where
  "group_size c = length (group c)"

subsection \<open>Checked 64-bit arithmetic\<close>

definition add64 :: "uint64 \<Rightarrow> uint64 \<Rightarrow> error + uint64" where
  "add64 a b = (if unat a + unat b < 2 ^ 64 then Inr (a + b) else Inl IntOverflow)"

definition mul64 :: "uint64 \<Rightarrow> uint64 \<Rightarrow> error + uint64" where
  "mul64 a b = (if unat a * unat b < 2 ^ 64 then Inr (a * b) else Inl IntOverflow)"

definition sub64 :: "uint64 \<Rightarrow> uint64 \<Rightarrow> error + uint64" where
  "sub64 a b = (if b \<le> a then Inr (a - b) else Inl IntUnderflow)"

definition div64 :: "uint64 \<Rightarrow> uint64 \<Rightarrow> error + uint64" where
  "div64 a b = (if b = 0 then Inl DivByZero else Inr (a div b))"

text \<open>\<open>Btoi\<close>: a byte string of at most eight bytes read as a big-endian integer.\<close>

definition Btoi :: "bytes \<Rightarrow> error + uint64" where
  "Btoi bs = (if 8 < length bs then Inl BtoiTooLong
              else Inr (foldl (\<lambda>acc b. acc * 256 + of_char b) 0 bs))"

text \<open>The outcome of a program: an error, or the returned value with the state written.\<close>

type_synonym 's outcome = "error + (uint64 \<times> 's)"

definition approved :: "'s outcome \<Rightarrow> bool" where
  "approved r = (case r of Inl e \<Rightarrow> False | Inr (v, s) \<Rightarrow> v \<noteq> 0)"

section \<open>RebalanceEngine\<close>

definition REBALANCE_THRESHOLD :: uint64 where "REBALANCE_THRESHOLD = 500"
definition MIN_REBALANCE_INTERVAL :: uint64 where "MIN_REBALANCE_INTERVAL = 3600"
definition MAX_SLIPPAGE :: uint64 where "MAX_SLIPPAGE = 300"
definition FUNDING_RATE_PRECISION :: uint64 where "FUNDING_RATE_PRECISION = 1000000"

text \<open>The global state of the engine, one field per key.\<close>

record engine_state =
  last_rebalance :: uint64
  current_delta :: uint64
  target_delta :: uint64
  funding_rate :: uint64
  yield_pool :: uint64
  rebalance_count :: uint64

definition engine_on_creation :: "call \<Rightarrow> engine_state \<Rightarrow> engine_state outcome" where
  "engine_on_creation c s =
     Inr (1, s\<lparr>last_rebalance := latest_timestamp c, current_delta := 0, target_delta := 0,
               funding_rate := 0, yield_pool := 0, rebalance_count := 0\<rparr>)"

definition engine_calculate_delta :: "call \<Rightarrow> engine_state \<Rightarrow> engine_state outcome" where
  "engine_calculate_delta c s =
     (if length (application_args c) \<noteq> 5 then Inl InvalidArgumentCount else
      case Btoi (application_args c ! 1) of Inl e \<Rightarrow> Inl e | Inr total_halgo_supply \<Rightarrow>
      case Btoi (application_args c ! 2) of Inl e \<Rightarrow> Inl e | Inr total_collateral \<Rightarrow>
      case Btoi (application_args c ! 3) of Inl e \<Rightarrow> Inl e | Inr current_price' \<Rightarrow>
      case Btoi (application_args c ! 4) of Inl e \<Rightarrow> Inl e | Inr price_change \<Rightarrow>
      case mul64 total_halgo_supply current_price' of Inl e \<Rightarrow> Inl e | Inr pv \<Rightarrow>
      case mul64 total_collateral current_price' of Inl e \<Rightarrow> Inl e | Inr cv \<Rightarrow>
      let portfolio_value = pv div 1000000;
          collateral_value = cv div 1000000
      in case (if price_change \<noteq> 0
               then (case sub64 portfolio_value collateral_value of Inl e \<Rightarrow> Inl e | Inr d \<Rightarrow>
                     case mul64 d 10000 of Inl e \<Rightarrow> Inl e | Inr m \<Rightarrow> div64 m price_change)
               else Inr 0) of
           Inl e \<Rightarrow> Inl e
         | Inr current_delta' \<Rightarrow> Inr (1, s\<lparr>current_delta := current_delta'\<rparr>))"

definition check_rebalance_needed :: "call \<Rightarrow> engine_state \<Rightarrow> engine_state outcome" where
  "check_rebalance_needed c s =
     (let current_time = latest_timestamp c;
          last_rebalance' = last_rebalance s
      in case sub64 current_time last_rebalance' of Inl e \<Rightarrow> Inl e | Inr time_since_rebalance \<Rightarrow>
         let time_ok = (MIN_REBALANCE_INTERVAL \<le> time_since_rebalance);
             current_delta_check = current_delta s;
             target_delta_check = target_delta s;
             delta_diff = (if target_delta_check < current_delta_check
                           then current_delta_check - target_delta_check
                           else target_delta_check - current_delta_check);
             delta_threshold_exceeded = (REBALANCE_THRESHOLD < delta_diff);
             rebalance_needed = (time_ok \<and> delta_threshold_exceeded)
         in Inr (if rebalance_needed then 1 else 0, s))"

definition execute_rebalance :: "call \<Rightarrow> engine_state \<Rightarrow> engine_state outcome" where
  "execute_rebalance c s =
     (if length (application_args c) \<noteq> 4 then Inl InvalidArgumentCount else
      if \<not> 2 \<le> group_size c then Inl GroupPaymentMismatch else
      case Btoi (application_args c ! 1) of Inl e \<Rightarrow> Inl e | Inr rebalance_amount \<Rightarrow>
      case Btoi (application_args c ! 2) of Inl e \<Rightarrow> Inl e | Inr direction \<Rightarrow>
      case Btoi (application_args c ! 3) of Inl e \<Rightarrow> Inl e | Inr slippage \<Rightarrow>
      if \<not> slippage \<le> MAX_SLIPPAGE then Inl SlippageExceeded else
      let current_time_rebalance = latest_timestamp c;
          rebalance_count' = rebalance_count s
      in case add64 rebalance_count' 1 of Inl e \<Rightarrow> Inl e | Inr n \<Rightarrow>
         Inr (1, s\<lparr>last_rebalance := current_time_rebalance, rebalance_count := n\<rparr>))"

definition update_funding_rate :: "call \<Rightarrow> engine_state \<Rightarrow> engine_state outcome" where
  "update_funding_rate c s =
     (if length (application_args c) \<noteq> 2 then Inl InvalidArgumentCount else
      case Btoi (application_args c ! 1) of Inl e \<Rightarrow> Inl e | Inr new_funding_rate \<Rightarrow>
      if \<not> new_funding_rate \<le> 1000000 then Inl InvalidFundingRate else
      Inr (1, s\<lparr>funding_rate := new_funding_rate\<rparr>))"

definition distribute_yield :: "call \<Rightarrow> engine_state \<Rightarrow> engine_state outcome" where
  "distribute_yield c s =
     (if length (application_args c) \<noteq> 2 then Inl InvalidArgumentCount else
      if \<not> 2 \<le> group_size c then Inl GroupPaymentMismatch else
      case Btoi (application_args c ! 1) of Inl e \<Rightarrow> Inl e | Inr yield_amount \<Rightarrow>
      if type_enum (group c ! 0) \<noteq> Payment then Inl GroupPaymentMismatch else
      if receiver (group c ! 0) \<noteq> current_application_address c then Inl GroupPaymentMismatch else
      if amount (group c ! 0) \<noteq> yield_amount then Inl GroupPaymentMismatch else
      let current_yield_pool = yield_pool s
      in case add64 current_yield_pool yield_amount of Inl e \<Rightarrow> Inl e | Inr p \<Rightarrow>
         Inr (1, s\<lparr>yield_pool := p\<rparr>))"

text \<open>
  \<open>calculate_hedge_ratio\<close> keeps its result in the scratch variable
  \<open>final_hedge_ratio\<close> and writes nothing to the state. \<open>final_hedge_ratio\<close> below is
  the value of that scratch variable when the program reaches its \<open>Return\<close>.
\<close>

definition final_hedge_ratio :: "call \<Rightarrow> error + uint64" where
  "final_hedge_ratio c =
     (if length (application_args c) \<noteq> 4 then Inl InvalidArgumentCount else
      case Btoi (application_args c ! 1) of Inl e \<Rightarrow> Inl e | Inr portfolio_value_hedge \<Rightarrow>
      case Btoi (application_args c ! 2) of Inl e \<Rightarrow> Inl e | Inr volatility \<Rightarrow>
      case Btoi (application_args c ! 3) of Inl e \<Rightarrow> Inl e | Inr correlation \<Rightarrow>
      case mul64 correlation volatility of Inl e \<Rightarrow> Inl e | Inr m \<Rightarrow>
      let hedge_ratio = m div 10000
      in Inr (if 10000 < hedge_ratio then 10000 else hedge_ratio))"

definition calculate_hedge_ratio :: "call \<Rightarrow> engine_state \<Rightarrow> engine_state outcome" where
  "calculate_hedge_ratio c s =
     (case final_hedge_ratio c of Inl e \<Rightarrow> Inl e | Inr final \<Rightarrow> Inr (1, s))"

definition set_target_delta :: "call \<Rightarrow> engine_state \<Rightarrow> engine_state outcome" where
  "set_target_delta c s =
     (if sender c \<noteq> creator_address c then Inl Unauthorized else
      if length (application_args c) \<noteq> 2 then Inl InvalidArgumentCount else
      case Btoi (application_args c ! 1) of Inl e \<Rightarrow> Inl e | Inr new_target_delta \<Rightarrow>
      Inr (1, s\<lparr>target_delta := new_target_delta\<rparr>))"

text \<open>The routing \<open>Cond\<close> of the engine; it has no branch for opt-in or close-out.\<close>

definition engine_approval_program :: "call \<Rightarrow> engine_state \<Rightarrow> engine_state outcome" where
  "engine_approval_program c s =
     (if application_id c = 0 then engine_on_creation c s
      else if on_completion c = NoOp then
        (case application_args c of
           [] \<Rightarrow> Inl ArgIndex
         | m # rest \<Rightarrow>
             if m = ''calculate_delta'' then engine_calculate_delta c s
             else if m = ''check_rebalance'' then check_rebalance_needed c s
             else if m = ''execute_rebalance'' then execute_rebalance c s
             else if m = ''update_funding'' then update_funding_rate c s
             else if m = ''distribute_yield'' then distribute_yield c s
             else if m = ''calculate_hedge'' then calculate_hedge_ratio c s
             else if m = ''set_target_delta'' then set_target_delta c s
             else Inl NoCondMatch)
      else if on_completion c = UpdateApplication
        then Inr (if sender c = creator_address c then 1 else 0, s)
      else if on_completion c = DeleteApplication
        then Inr (if sender c = creator_address c then 1 else 0, s)
      else Inl NoCondMatch)"


section \<open>EnterprisePriceOracle\<close>

definition MAX_PRICE_DEVIATION :: uint64 where "MAX_PRICE_DEVIATION = 500"
definition MIN_ORACLE_SOURCES :: uint64 where "MIN_ORACLE_SOURCES = 3"
definition STALENESS_THRESHOLD :: uint64 where "STALENESS_THRESHOLD = 3600"
definition CIRCUIT_BREAKER_THRESHOLD :: uint64 where "CIRCUIT_BREAKER_THRESHOLD = 1000"

text \<open>The local state an oracle account holds once it has opted in, one field per key.\<close>

record oracle_local =
  oracle_auth :: uint64
  oracle_rep :: uint64
  last_sub :: uint64

text \<open>
  The global state of the oracle, one field per key, and the local state of every account:
  \<open>None\<close> for an account that has not opted in.
\<close>

record oracle_state =
  current_price :: uint64
  last_update :: uint64
  oracle_count :: uint64
  circuit_breaker :: uint64
  total_submissions :: uint64
  oracle_locals :: "address \<Rightarrow> oracle_local option"

definition oracle_on_creation :: "call \<Rightarrow> oracle_state \<Rightarrow> oracle_state outcome" where
  "oracle_on_creation c s =
     Inr (1, s\<lparr>current_price := 250000, last_update := latest_timestamp c, oracle_count := 0,
               circuit_breaker := 0, total_submissions := 0\<rparr>)"

definition on_opt_in :: "call \<Rightarrow> oracle_state \<Rightarrow> oracle_state outcome" where
  "on_opt_in c s =
     (case oracle_locals s (sender c) of
        None \<Rightarrow> Inl NotRegistered
      | Some l \<Rightarrow>
          Inr (1, s\<lparr>oracle_locals := (oracle_locals s)
                    (sender c \<mapsto> l\<lparr>oracle_auth := 0, oracle_rep := 100, last_sub := 0\<rparr>)\<rparr>))"

text \<open>
  \<open>authorize_oracle\<close> checks the sender and the number of arguments and adds one to the
  oracle count. It never reads its second argument and writes no local state.
\<close>

definition authorize_oracle :: "call \<Rightarrow> oracle_state \<Rightarrow> oracle_state outcome" where
  "authorize_oracle c s =
     (if sender c \<noteq> creator_address c then Inl Unauthorized else
      if \<not> 2 \<le> length (application_args c) then Inl InvalidArgumentCount else
      let oracle_count' = oracle_count s
      in case add64 oracle_count' 1 of Inl e \<Rightarrow> Inl e | Inr n \<Rightarrow>
         Inr (1, s\<lparr>oracle_count := n\<rparr>))"

definition submit_price :: "call \<Rightarrow> oracle_state \<Rightarrow> oracle_state outcome" where
  "submit_price c s =
     (case oracle_locals s (sender c) of
        None \<Rightarrow> Inl NotRegistered
      | Some l \<Rightarrow>
          if oracle_auth l \<noteq> 1 then Inl Unauthorized else
          if \<not> 2 \<le> length (application_args c) then Inl InvalidArgumentCount else
          if circuit_breaker s \<noteq> 0 then Inl CircuitBreakerActive else
          case Btoi (application_args c ! 1) of Inl e \<Rightarrow> Inl e | Inr new_price \<Rightarrow>
          let current_price' = current_price s;
              price_diff = (if current_price' < new_price
                            then new_price - current_price'
                            else current_price' - new_price)
          in case mul64 current_price' MAX_PRICE_DEVIATION of Inl e \<Rightarrow> Inl e | Inr m \<Rightarrow>
             let max_deviation = m div 10000
             in if \<not> price_diff \<le> max_deviation then Inl DeviationExceeded else
                case add64 (total_submissions s) 1 of Inl e \<Rightarrow> Inl e | Inr n \<Rightarrow>
                case add64 (oracle_rep l) 1 of Inl e \<Rightarrow> Inl e | Inr r \<Rightarrow>
                Inr (1, s\<lparr>current_price := new_price,
                          last_update := latest_timestamp c,
                          total_submissions := n,
                          oracle_locals := (oracle_locals s)
                            (sender c \<mapsto> l\<lparr>last_sub := latest_timestamp c, oracle_rep := r\<rparr>)\<rparr>))"

definition get_price :: "call \<Rightarrow> oracle_state \<Rightarrow> oracle_state outcome" where
  "get_price c s =
     (let current_time = latest_timestamp c;
          last_update' = last_update s
      in case sub64 current_time last_update' of Inl e \<Rightarrow> Inl e | Inr age \<Rightarrow>
         if \<not> age \<le> STALENESS_THRESHOLD then Inl StalePrice else
         if circuit_breaker s \<noteq> 0 then Inl CircuitBreakerActive else
         Inr (current_price s, s))"

definition emergency_pause :: "call \<Rightarrow> oracle_state \<Rightarrow> oracle_state outcome" where
  "emergency_pause c s =
     (if sender c \<noteq> creator_address c then Inl Unauthorized else
      Inr (1, s\<lparr>circuit_breaker := 1\<rparr>))"

definition resume_operations :: "call \<Rightarrow> oracle_state \<Rightarrow> oracle_state outcome" where
  "resume_operations c s =
     (if sender c \<noteq> creator_address c then Inl Unauthorized else
      Inr (1, s\<lparr>circuit_breaker := 0\<rparr>))"

text \<open>The routing \<open>Cond\<close> of the oracle, its branches in the order of the source.\<close>

definition oracle_approval_program :: "call \<Rightarrow> oracle_state \<Rightarrow> oracle_state outcome" where
  "oracle_approval_program c s =
     (if application_id c = 0 then oracle_on_creation c s
      else if on_completion c = OptIn then on_opt_in c s
      else if on_completion c = NoOp then
        (case application_args c of
           [] \<Rightarrow> Inl ArgIndex
         | m # rest \<Rightarrow>
             if m = ''authorize'' then authorize_oracle c s
             else if m = ''submit'' then submit_price c s
             else if m = ''get_price'' then get_price c s
             else if m = ''emergency_pause'' then emergency_pause c s
             else if m = ''resume'' then resume_operations c s
             else Inl NoCondMatch)
      else if on_completion c = CloseOut then Inr (1, s)
      else if on_completion c = UpdateApplication
        then Inr (if sender c = creator_address c then 1 else 0, s)
      else if on_completion c = DeleteApplication
        then Inr (if sender c = creator_address c then 1 else 0, s)
      else Inl NoCondMatch)"

section \<open>RiskManager\<close>

definition LIQUIDATION_THRESHOLD :: uint64 where "LIQUIDATION_THRESHOLD = 120"
definition LIQUIDATION_PENALTY :: uint64 where "LIQUIDATION_PENALTY = 500"
definition MAX_POSITION_SIZE :: uint64 where "MAX_POSITION_SIZE = 1000000000000"
definition RISK_SCORE_THRESHOLD :: uint64 where "RISK_SCORE_THRESHOLD = 8000"

record risk_local =
  user_risk_score :: uint64
  user_delta_exposure :: uint64
  user_liquidation_price :: uint64

record risk_state =
  total_risk_exposure :: uint64
  liquidation_pool :: uint64
  system_health :: uint64
  last_risk_update :: uint64
  risk_locals :: "address \<Rightarrow> risk_local option"

definition risk_on_creation :: "call \<Rightarrow> risk_state \<Rightarrow> risk_state outcome" where
  "risk_on_creation c s =
     Inr (1, s\<lparr>total_risk_exposure := 0, liquidation_pool := 0, system_health := 10000,
               last_risk_update := latest_timestamp c\<rparr>)"

text \<open>
  The ratio both \<open>calculate_risk_score\<close> and \<open>check_liquidation\<close> compute:
  \<open>If(balance > 0, collateral * 10000 / balance, 10000)\<close>. Only the branch taken is
  evaluated.
\<close>

definition collateral_ratio :: "uint64 \<Rightarrow> uint64 \<Rightarrow> error + uint64" where
  "collateral_ratio user_collateral user_halgo_balance =
     (if 0 < user_halgo_balance
      then (case mul64 user_collateral 10000 of
              Inl e \<Rightarrow> Inl e
            | Inr m \<Rightarrow> div64 m user_halgo_balance)
      else Inr 10000)"

definition calculate_risk_score :: "call \<Rightarrow> risk_state \<Rightarrow> risk_state outcome" where
  "calculate_risk_score c s =
     (if length (application_args c) \<noteq> 4 then Inl InvalidArgumentCount else
      case Btoi (application_args c ! 1) of Inl e \<Rightarrow> Inl e | Inr user_collateral \<Rightarrow>
      case Btoi (application_args c ! 2) of Inl e \<Rightarrow> Inl e | Inr user_halgo_balance \<Rightarrow>
      case Btoi (application_args c ! 3) of Inl e \<Rightarrow> Inl e | Inr current_price' \<Rightarrow>
      case collateral_ratio user_collateral user_halgo_balance of Inl e \<Rightarrow> Inl e | Inr risk_score \<Rightarrow>
      case risk_locals s (sender c) of
        None \<Rightarrow> Inl NotRegistered
      | Some l \<Rightarrow>
          Inr (1, s\<lparr>risk_locals := (risk_locals s)
                    (sender c \<mapsto> l\<lparr>user_risk_score := risk_score,
                                    user_liquidation_price := risk_score\<rparr>)\<rparr>))"

definition check_liquidation :: "call \<Rightarrow> risk_state \<Rightarrow> risk_state outcome" where
  "check_liquidation c s =
     (if length (application_args c) \<noteq> 5 then Inl InvalidArgumentCount else
      case Btoi (application_args c ! 2) of Inl e \<Rightarrow> Inl e | Inr user_collateral_check \<Rightarrow>
      case Btoi (application_args c ! 3) of Inl e \<Rightarrow> Inl e | Inr user_halgo_balance_check \<Rightarrow>
      case Btoi (application_args c ! 4) of Inl e \<Rightarrow> Inl e | Inr current_price_check \<Rightarrow>
      case collateral_ratio user_collateral_check user_halgo_balance_check of
        Inl e \<Rightarrow> Inl e
      | Inr ratio \<Rightarrow> Inr (if ratio < LIQUIDATION_THRESHOLD then 1 else 0, s))"

text \<open>
  \<open>execute_liquidation\<close> checks the type and the receiver of the first transaction of the
  group. It does not read that transaction's amount.
\<close>

definition execute_liquidation :: "call \<Rightarrow> risk_state \<Rightarrow> risk_state outcome" where
  "execute_liquidation c s =
     (if length (application_args c) \<noteq> 5 then Inl InvalidArgumentCount else
      if \<not> 2 \<le> group_size c then Inl GroupPaymentMismatch else
      case Btoi (application_args c ! 2) of Inl e \<Rightarrow> Inl e | Inr liquidation_amount \<Rightarrow>
      case Btoi (application_args c ! 3) of Inl e \<Rightarrow> Inl e | Inr current_price' \<Rightarrow>
      if type_enum (group c ! 0) \<noteq> Payment then Inl GroupPaymentMismatch else
      if receiver (group c ! 0) \<noteq> current_application_address c then Inl GroupPaymentMismatch else
      case mul64 liquidation_amount LIQUIDATION_PENALTY of Inl e \<Rightarrow> Inl e | Inr m \<Rightarrow>
      let penalty_amount = m div 10000;
          protocol_fee = penalty_amount div 2
      in case add64 (liquidation_pool s) protocol_fee of Inl e \<Rightarrow> Inl e | Inr p \<Rightarrow>
         Inr (1, s\<lparr>liquidation_pool := p\<rparr>))"

definition update_system_health :: "call \<Rightarrow> risk_state \<Rightarrow> risk_state outcome" where
  "update_system_health c s =
     (if sender c \<noteq> creator_address c then Inl Unauthorized else
      if length (application_args c) \<noteq> 2 then Inl InvalidArgumentCount else
      case Btoi (application_args c ! 1) of Inl e \<Rightarrow> Inl e | Inr new_health_score \<Rightarrow>
      Inr (1, s\<lparr>system_health := new_health_score, last_risk_update := latest_timestamp c\<rparr>))"

definition risk_calculate_delta :: "call \<Rightarrow> risk_state \<Rightarrow> risk_state outcome" where
  "risk_calculate_delta c s =
     (if length (application_args c) \<noteq> 4 then Inl InvalidArgumentCount else
      case Btoi (application_args c ! 1) of Inl e \<Rightarrow> Inl e | Inr user_halgo_balance \<Rightarrow>
      case Btoi (application_args c ! 2) of Inl e \<Rightarrow> Inl e | Inr current_price' \<Rightarrow>
      case Btoi (application_args c ! 3) of Inl e \<Rightarrow> Inl e | Inr price_volatility \<Rightarrow>
      case mul64 user_halgo_balance price_volatility of Inl e \<Rightarrow> Inl e | Inr m \<Rightarrow>
      let delta_exposure = m div 10000
      in case risk_locals s (sender c) of
           None \<Rightarrow> Inl NotRegistered
         | Some l \<Rightarrow>
             Inr (1, s\<lparr>risk_locals := (risk_locals s)
                       (sender c \<mapsto> l\<lparr>user_delta_exposure := delta_exposure\<rparr>)\<rparr>))"

definition risk_approval_program :: "call \<Rightarrow> risk_state \<Rightarrow> risk_state outcome" where
  "risk_approval_program c s =
     (if application_id c = 0 then risk_on_creation c s
      else if on_completion c = NoOp then
        (case application_args c of
           [] \<Rightarrow> Inl ArgIndex
         | m # rest \<Rightarrow>
             if m = ''calculate_risk'' then calculate_risk_score c s
             else if m = ''check_liquidation'' then check_liquidation c s
             else if m = ''execute_liquidation'' then execute_liquidation c s
             else if m = ''update_health'' then update_system_health c s
             else if m = ''calculate_delta'' then risk_calculate_delta c s
             else Inl NoCondMatch)
      else if on_completion c = OptIn then Inr (1, s)
      else if on_completion c = CloseOut then Inr (1, s)
      else if on_completion c = UpdateApplication
        then Inr (if sender c = creator_address c then 1 else 0, s)
      else if on_completion c = DeleteApplication
        then Inr (if sender c = creator_address c then 1 else 0, s)
      else Inl NoCondMatch)"

section \<open>The ledger around a call\<close>

text \<open>
  What the ledger does with an application call, given the approval program of the
  contract, the three operations on its local state (is the account opted in, give it
  an empty local state, take its local state away) and the removal of its global state:

  \<^item> a clear-state call runs the clear-state program, which is \<open>Return(Int(1))\<close> in all
    three contracts, and removes the sender's local state; it is refused when the sender
    has none;
  \<^item> an opt-in call is refused when the sender has opted in already; otherwise the sender
    gets an empty local state and the approval program runs on it;
  \<^item> a close-out call runs the approval program and, when approved, removes the sender's
    local state; it is refused when the sender has none;
  \<^item> a delete call runs the approval program and, when approved, removes the application
    with its global state: no global key is left, and each reads as 0 from then on. The
    local state that accounts hold stays with them;
  \<^item> every other call runs the approval program.

  The result is the committed state, or \<open>None\<close> when the call is rejected: then nothing
  that the program wrote, and nothing the ledger prepared for it, is kept.

  The embedding follows an application while it exists under the program of the source.
  That the ledger refuses every later call to a deleted application, and what a program
  installed by an approved update does, are not part of it.
\<close>

definition apply_call ::
  "(call \<Rightarrow> 's \<Rightarrow> 's outcome) \<Rightarrow> ('s \<Rightarrow> address \<Rightarrow> bool) \<Rightarrow> ('s \<Rightarrow> address \<Rightarrow> 's) \<Rightarrow>
   ('s \<Rightarrow> address \<Rightarrow> 's) \<Rightarrow> ('s \<Rightarrow> 's) \<Rightarrow> call \<Rightarrow> 's \<Rightarrow> 's option" where
  "apply_call approval opted_in allocate release remove c s =
     (if on_completion c = ClearState then
        (if opted_in s (sender c) then Some (release s (sender c)) else None)
      else if on_completion c = OptIn \<and> opted_in s (sender c) then None
      else if on_completion c = CloseOut \<and> \<not> opted_in s (sender c) then None
      else
        (case approval c (if on_completion c = OptIn then allocate s (sender c) else s) of
           Inl e \<Rightarrow> None
         | Inr (v, s') \<Rightarrow>
             if v = 0 then None
             else if on_completion c = CloseOut then Some (release s' (sender c))
             else if on_completion c = DeleteApplication then Some (remove s')
             else Some s'))"

definition state_after :: "'s option \<Rightarrow> 's \<Rightarrow> 's" where
  "state_after r s = (case r of None \<Rightarrow> s | Some s' \<Rightarrow> s')"

text \<open>
  The three operations on the local state of the oracle and of the risk manager, and the
  removal of their global state.
\<close>

definition oracle_opted_in :: "oracle_state \<Rightarrow> address \<Rightarrow> bool" where
  "oracle_opted_in s a = (oracle_locals s a \<noteq> None)"

definition oracle_allocate :: "oracle_state \<Rightarrow> address \<Rightarrow> oracle_state" where
  "oracle_allocate s a =
     s\<lparr>oracle_locals := (oracle_locals s)(a \<mapsto> \<lparr>oracle_auth = 0, oracle_rep = 0, last_sub = 0\<rparr>)\<rparr>"

definition oracle_release :: "oracle_state \<Rightarrow> address \<Rightarrow> oracle_state" where
  "oracle_release s a = s\<lparr>oracle_locals := (oracle_locals s)(a := None)\<rparr>"

definition oracle_remove :: "oracle_state \<Rightarrow> oracle_state" where
  "oracle_remove s = s\<lparr>current_price := 0, last_update := 0, oracle_count := 0,
                        circuit_breaker := 0, total_submissions := 0\<rparr>"

definition oracle_call :: "call \<Rightarrow> oracle_state \<Rightarrow> oracle_state option" where
  "oracle_call c s =
     apply_call oracle_approval_program oracle_opted_in oracle_allocate oracle_release
       oracle_remove c s"

definition risk_opted_in :: "risk_state \<Rightarrow> address \<Rightarrow> bool" where
  "risk_opted_in s a = (risk_locals s a \<noteq> None)"

definition risk_allocate :: "risk_state \<Rightarrow> address \<Rightarrow> risk_state" where
  "risk_allocate s a =
     s\<lparr>risk_locals := (risk_locals s)
         (a \<mapsto> \<lparr>user_risk_score = 0, user_delta_exposure = 0, user_liquidation_price = 0\<rparr>)\<rparr>"

definition risk_release :: "risk_state \<Rightarrow> address \<Rightarrow> risk_state" where
  "risk_release s a = s\<lparr>risk_locals := (risk_locals s)(a := None)\<rparr>"

definition risk_remove :: "risk_state \<Rightarrow> risk_state" where
  "risk_remove s = s\<lparr>total_risk_exposure := 0, liquidation_pool := 0, system_health := 0,
                      last_risk_update := 0\<rparr>"

definition risk_call :: "call \<Rightarrow> risk_state \<Rightarrow> risk_state option" where
  "risk_call c s =
     apply_call risk_approval_program risk_opted_in risk_allocate risk_release risk_remove c s"

text \<open>
  The engine reads and writes no local state, so the model keeps none for it: an opt-in
  call reaches the routing \<open>Cond\<close>, which has no branch for it, and is rejected.
\<close>

definition engine_remove :: "engine_state \<Rightarrow> engine_state" where
  "engine_remove s = s\<lparr>last_rebalance := 0, current_delta := 0, target_delta := 0,
                        funding_rate := 0, yield_pool := 0, rebalance_count := 0\<rparr>"

definition engine_call :: "call \<Rightarrow> engine_state \<Rightarrow> engine_state option" where
  "engine_call c s =
     apply_call engine_approval_program (\<lambda>s a. False) (\<lambda>s a. s) (\<lambda>s a. s) engine_remove c s"

text \<open>A run of calls: every call is applied to the state the one before it left.\<close>

fun run :: "(call \<Rightarrow> 's \<Rightarrow> 's option) \<Rightarrow> call list \<Rightarrow> 's \<Rightarrow> 's" where
  "run f [] s = s"
| "run f (c # cs) s = run f cs (state_after (f c s) s)"

text \<open>
  Deployment: the creation call (application id 0) applied to a store in which no key has
  been written and no account has opted in.
\<close>

definition oracle_empty :: oracle_state where
  "oracle_empty = \<lparr>current_price = 0, last_update = 0, oracle_count = 0, circuit_breaker = 0,
                   total_submissions = 0, oracle_locals = (\<lambda>a. None)\<rparr>"

definition oracle_deploy :: "call \<Rightarrow> oracle_state" where
  "oracle_deploy c = state_after (oracle_call (c\<lparr>application_id := 0\<rparr>) oracle_empty) oracle_empty"

section \<open>Concrete states and calls\<close>

text \<open>
  Arguments are byte strings: \<open>[CHR 0x4E, CHR 0x20]\<close> is 20000 and
  \<open>[CHR 0x01, CHR 0x00, CHR 0x00, CHR 0x00, CHR 0x00]\<close> is \<open>2 ^ 32\<close>.
\<close>

definition engine_example :: engine_state where
  "engine_example = \<lparr>last_rebalance = 1000, current_delta = 0, target_delta = 0,
                     funding_rate = 0, yield_pool = 40, rebalance_count = 7\<rparr>"

text \<open>
  A yield distribution of 1000 (\<open>[CHR 0x03, CHR 0xE8]\<close>) whose companion payment to the
  application carries 999, and a rebalance with a slippage of 301 (\<open>[CHR 0x01, CHR 0x2D]\<close>).
\<close>

definition yield_999_call :: call where
  "yield_999_call = \<lparr>sender = 2, application_id = 1003, on_completion = NoOp,
     application_args = [''distribute_yield'', [CHR 0x03, CHR 0xE8]],
     latest_timestamp = 5000, creator_address = 1, current_application_address = 77,
     group = [\<lparr>type_enum = Payment, receiver = 77, amount = 999\<rparr>,
              \<lparr>type_enum = ApplicationCall, receiver = 0, amount = 0\<rparr>]\<rparr>"

definition rebalance_301_call :: call where
  "rebalance_301_call = \<lparr>sender = 2, application_id = 1003, on_completion = NoOp,
     application_args = [''execute_rebalance'', [CHR 0x64], [CHR 0x01], [CHR 0x01, CHR 0x2D]],
     latest_timestamp = 5000, creator_address = 1, current_application_address = 77,
     group = [\<lparr>type_enum = ApplicationCall, receiver = 0, amount = 0\<rparr>,
              \<lparr>type_enum = ApplicationCall, receiver = 0, amount = 0\<rparr>]\<rparr>"


definition hedge_call :: call where
  "hedge_call = \<lparr>sender = 2, application_id = 1003, on_completion = NoOp,
     application_args = [''calculate_hedge'', [CHR 0x01], [CHR 0x4E, CHR 0x20], [CHR 0x4E, CHR 0x20]],
     latest_timestamp = 5000, creator_address = 1, current_application_address = 77,
     group = [\<lparr>type_enum = ApplicationCall, receiver = 0, amount = 0\<rparr>]\<rparr>"

definition hedge_overflow_call :: call where
  "hedge_overflow_call = \<lparr>sender = 2, application_id = 1003, on_completion = NoOp,
     application_args = [''calculate_hedge'', [CHR 0x01],
       [CHR 0x01, CHR 0x00, CHR 0x00, CHR 0x00, CHR 0x00],
       [CHR 0x01, CHR 0x00, CHR 0x00, CHR 0x00, CHR 0x00]],
     latest_timestamp = 5000, creator_address = 1, current_application_address = 77,
     group = [\<lparr>type_enum = ApplicationCall, receiver = 0, amount = 0\<rparr>]\<rparr>"

definition oracle_example :: oracle_state where
  "oracle_example = \<lparr>current_price = 250000, last_update = 1000, oracle_count = 0,
     circuit_breaker = 0, total_submissions = 0,
     oracle_locals = Map.empty(7 \<mapsto> \<lparr>oracle_auth = 0, oracle_rep = 100, last_sub = 0\<rparr>)\<rparr>"

definition get_price_call :: call where
  "get_price_call = \<lparr>sender = 3, application_id = 1001, on_completion = NoOp,
     application_args = [''get_price''],
     latest_timestamp = 4000, creator_address = 1, current_application_address = 55,
     group = [\<lparr>type_enum = ApplicationCall, receiver = 0, amount = 0\<rparr>]\<rparr>"

text \<open>
  A state in which account 7 holds the authorised flag and a reputation of 150, and two
  submissions by that account: \<open>[CHR 0x03, CHR 0xF7, CHR 0xA0]\<close> is 260000 and
  \<open>[CHR 0x04, CHR 0x93, CHR 0xE0]\<close> is 300000.
\<close>

definition oracle_authorized_example :: oracle_state where
  "oracle_authorized_example = \<lparr>current_price = 250000, last_update = 1000, oracle_count = 1,
     circuit_breaker = 0, total_submissions = 50,
     oracle_locals = Map.empty(7 \<mapsto> \<lparr>oracle_auth = 1, oracle_rep = 150, last_sub = 1000\<rparr>)\<rparr>"

definition submit_260000_call :: call where
  "submit_260000_call = \<lparr>sender = 7, application_id = 1001, on_completion = NoOp,
     application_args = [''submit'', [CHR 0x03, CHR 0xF7, CHR 0xA0]],
     latest_timestamp = 4000, creator_address = 1, current_application_address = 55,
     group = [\<lparr>type_enum = ApplicationCall, receiver = 0, amount = 0\<rparr>]\<rparr>"

definition submit_300000_call :: call where
  "submit_300000_call = \<lparr>sender = 7, application_id = 1001, on_completion = NoOp,
     application_args = [''submit'', [CHR 0x04, CHR 0x93, CHR 0xE0]],
     latest_timestamp = 4000, creator_address = 1, current_application_address = 55,
     group = [\<lparr>type_enum = ApplicationCall, receiver = 0, amount = 0\<rparr>]\<rparr>"

text \<open>
  The creator, account 1, authorising account 7, which has opted in, and account 8, which
  has not. The second argument stands for the address of the target.
\<close>

definition authorize_7_call :: call where
  "authorize_7_call = \<lparr>sender = 1, application_id = 1001, on_completion = NoOp,
     application_args = [''authorize'', [CHR 0x07]],
     latest_timestamp = 4000, creator_address = 1, current_application_address = 55,
     group = [\<lparr>type_enum = ApplicationCall, receiver = 0, amount = 0\<rparr>]\<rparr>"

definition authorize_8_call :: call where
  "authorize_8_call = \<lparr>sender = 1, application_id = 1001, on_completion = NoOp,
     application_args = [''authorize'', [CHR 0x08]],
     latest_timestamp = 4000, creator_address = 1, current_application_address = 55,
     group = [\<lparr>type_enum = ApplicationCall, receiver = 0, amount = 0\<rparr>]\<rparr>"

text \<open>
  Deployment by account 1, and account 7 opting in and closing out.
\<close>

definition deploy_call :: call where
  "deploy_call = \<lparr>sender = 1, application_id = 0, on_completion = NoOp,
     application_args = [],
     latest_timestamp = 1000, creator_address = 1, current_application_address = 55,
     group = [\<lparr>type_enum = ApplicationCall, receiver = 0, amount = 0\<rparr>]\<rparr>"

definition opt_in_7_call :: call where
  "opt_in_7_call = \<lparr>sender = 7, application_id = 1001, on_completion = OptIn,
     application_args = [],
     latest_timestamp = 2000, creator_address = 1, current_application_address = 55,
     group = [\<lparr>type_enum = ApplicationCall, receiver = 0, amount = 0\<rparr>]\<rparr>"



text \<open>
  For the risk manager: \<open>[CHR 0x64]\<close> is 100, \<open>[CHR 0xC8]\<close> is 200,
  \<open>[CHR 0x03, CHR 0xD0, CHR 0x90]\<close> is 250000 and \<open>[CHR 0x0F, CHR 0x42, CHR 0x40]\<close>
  is 1000000. Account 5 has opted in.
\<close>

definition risk_example :: risk_state where
  "risk_example = \<lparr>total_risk_exposure = 0, liquidation_pool = 0, system_health = 10000,
     last_risk_update = 1000,
     risk_locals = Map.empty(5 \<mapsto> \<lparr>user_risk_score = 0, user_delta_exposure = 0,
                                      user_liquidation_price = 0\<rparr>)\<rparr>"

definition score_zero_balance_call :: call where
  "score_zero_balance_call = \<lparr>sender = 5, application_id = 1002, on_completion = NoOp,
     application_args = [''calculate_risk'', [CHR 0x64], [CHR 0x00], [CHR 0x03, CHR 0xD0, CHR 0x90]],
     latest_timestamp = 4000, creator_address = 1, current_application_address = 66,
     group = [\<lparr>type_enum = ApplicationCall, receiver = 0, amount = 0\<rparr>]\<rparr>"

definition check_zero_balance_call :: call where
  "check_zero_balance_call = \<lparr>sender = 5, application_id = 1002, on_completion = NoOp,
     application_args = [''check_liquidation'', ''user'', [CHR 0x64], [CHR 0x00],
                         [CHR 0x03, CHR 0xD0, CHR 0x90]],
     latest_timestamp = 4000, creator_address = 1, current_application_address = 66,
     group = [\<lparr>type_enum = ApplicationCall, receiver = 0, amount = 0\<rparr>]\<rparr>"

definition score_100_200_call :: call where
  "score_100_200_call = \<lparr>sender = 5, application_id = 1002, on_completion = NoOp,
     application_args = [''calculate_risk'', [CHR 0x64], [CHR 0xC8], [CHR 0x03, CHR 0xD0, CHR 0x90]],
     latest_timestamp = 4000, creator_address = 1, current_application_address = 66,
     group = [\<lparr>type_enum = ApplicationCall, receiver = 0, amount = 0\<rparr>]\<rparr>"

definition check_100_200_call :: call where
  "check_100_200_call = \<lparr>sender = 5, application_id = 1002, on_completion = NoOp,
     application_args = [''check_liquidation'', ''user'', [CHR 0x64], [CHR 0xC8],
                         [CHR 0x03, CHR 0xD0, CHR 0x90]],
     latest_timestamp = 4000, creator_address = 1, current_application_address = 66,
     group = [\<lparr>type_enum = ApplicationCall, receiver = 0, amount = 0\<rparr>]\<rparr>"

text \<open>
  A liquidation of 1000000 whose companion payment, first in the group and addressed to
  the application, carries an amount of 1.
\<close>

definition liquidation_call :: call where
  "liquidation_call = \<lparr>sender = 5, application_id = 1002, on_completion = NoOp,
     application_args = [''execute_liquidation'', ''user'', [CHR 0x0F, CHR 0x42, CHR 0x40],
                         [CHR 0x03, CHR 0xD0, CHR 0x90], [CHR 0x00]],
     latest_timestamp = 4000, creator_address = 1, current_application_address = 66,
     group = [\<lparr>type_enum = Payment, receiver = 66, amount = 1\<rparr>,
              \<lparr>type_enum = ApplicationCall, receiver = 0, amount = 0\<rparr>]\<rparr>"

section \<open>Facts about the checked arithmetic\<close>

lemma mul64_Inr: "mul64 a b = Inr m \<Longrightarrow> unat m = unat a * unat b"
  by (auto simp: mul64_def unat_mult_lem [THEN iffD1] split: if_splits)


lemma price_diff_uint:
  "uint (if a < b then b - a else a - b) = \<bar>uint b - uint a\<bar>" for a b :: uint64
  by (auto simp: word_less_def uint_sub_lem [THEN iffD1])

lemma mul64_uint: "mul64 a b = Inr m \<Longrightarrow> uint m = uint a * uint b"
proof -
  assume "mul64 a b = Inr m"
  then have "unat m = unat a * unat b" by (rule mul64_Inr)
  then have "int (unat m) = int (unat a) * int (unat b)" by simp
  then show ?thesis by simp
qed

lemma max_deviation_uint:
  "mul64 cp MAX_PRICE_DEVIATION = Inr m \<Longrightarrow> uint (m div 10000) = uint cp * 500 div 10000"
  by (simp add: uint_div mul64_uint MAX_PRICE_DEVIATION_def)

lemma collateral_ratio_no_div_by_zero: "collateral_ratio a b \<noteq> Inl DivByZero"
  by (auto simp: collateral_ratio_def mul64_def div64_def)

lemma collateral_ratio_zero: "collateral_ratio a 0 = Inr 10000"
  by (simp add: collateral_ratio_def)

section \<open>Facts about the ledger\<close>

lemma apply_call_NoOp:
  "on_completion c = NoOp \<Longrightarrow>
   apply_call approval opted_in allocate release remove c s =
     (case approval c s of Inl e \<Rightarrow> None | Inr (v, s') \<Rightarrow> if v = 0 then None else Some s')"
  by (simp add: apply_call_def split: sum.splits prod.splits)

lemma oracle_route_submit:
  "application_id c \<noteq> 0 \<Longrightarrow> on_completion c = NoOp \<Longrightarrow>
   application_args c = ''submit'' # rest \<Longrightarrow>
   oracle_approval_program c s = submit_price c s"
  by (simp add: oracle_approval_program_def)

lemma oracle_route_authorize:
  "application_id c \<noteq> 0 \<Longrightarrow> on_completion c = NoOp \<Longrightarrow>
   application_args c = ''authorize'' # rest \<Longrightarrow>
   oracle_approval_program c s = authorize_oracle c s"
  by (simp add: oracle_approval_program_def)

section \<open>Facts about the oracle's local state\<close>

lemma on_opt_in_auth:
  "on_opt_in c s = Inr (v, s') \<Longrightarrow> oracle_locals s' a = Some l' \<Longrightarrow>
   oracle_auth l' = 0 \<or> oracle_locals s a = Some l'"
  by (auto simp: on_opt_in_def split: option.splits if_splits)

lemma authorize_oracle_locals:
  "authorize_oracle c s = Inr (v, s') \<Longrightarrow> oracle_locals s' = oracle_locals s"
  by (auto simp: authorize_oracle_def Let_def split: if_splits sum.splits)

lemma submit_price_auth:
  "submit_price c s = Inr (v, s') \<Longrightarrow> oracle_locals s' a = Some l' \<Longrightarrow>
   \<exists>l. oracle_locals s a = Some l \<and> oracle_auth l' = oracle_auth l"
  by (auto simp: submit_price_def Let_def split: option.splits if_splits sum.splits)

lemma get_price_state: "get_price c s = Inr (v, s') \<Longrightarrow> s' = s"
  by (auto simp: get_price_def Let_def split: if_splits sum.splits)

lemma emergency_pause_locals:
  "emergency_pause c s = Inr (v, s') \<Longrightarrow> oracle_locals s' = oracle_locals s"
  by (auto simp: emergency_pause_def split: if_splits)

lemma resume_operations_locals:
  "resume_operations c s = Inr (v, s') \<Longrightarrow> oracle_locals s' = oracle_locals s"
  by (auto simp: resume_operations_def split: if_splits)

lemma oracle_on_creation_locals:
  "oracle_on_creation c s = Inr (v, s') \<Longrightarrow> oracle_locals s' = oracle_locals s"
  by (auto simp: oracle_on_creation_def)

lemma oracle_program_auth:
  assumes "oracle_approval_program c s = Inr (v, s')" and "oracle_locals s' a = Some l'"
  shows "oracle_auth l' = 0 \<or> (\<exists>l. oracle_locals s a = Some l \<and> oracle_auth l' = oracle_auth l)"
  using assms
  by (auto simp: oracle_approval_program_def
           split: if_splits list.splits
           dest: on_opt_in_auth submit_price_auth
                 authorize_oracle_locals get_price_state emergency_pause_locals
                 resume_operations_locals oracle_on_creation_locals)

lemma oracle_call_auth:
  assumes "oracle_locals (state_after (oracle_call c s) s) a = Some l'"
  shows "oracle_auth l' = 0 \<or> (\<exists>l. oracle_locals s a = Some l \<and> oracle_auth l' = oracle_auth l)"
proof (cases "oracle_call c s")
  case None
  with assms show ?thesis by (simp add: state_after_def)
next
  case (Some s2)
  with assms have l': "oracle_locals s2 a = Some l'"
    by (simp add: state_after_def)
  show ?thesis
  proof (cases "on_completion c = ClearState")
    case True
    with Some have "s2 = oracle_release s (sender c)"
      by (simp add: oracle_call_def apply_call_def split: if_splits)
    with l' show ?thesis
      by (auto simp: oracle_release_def split: if_splits)
  next
    case False
    let ?entry = "if on_completion c = OptIn then oracle_allocate s (sender c) else s"
    from Some False obtain v s' where
      prog: "oracle_approval_program c ?entry = Inr (v, s')" and
      s2: "s2 = (if on_completion c = CloseOut then oracle_release s' (sender c)
                 else if on_completion c = DeleteApplication then oracle_remove s' else s')"
      by (auto simp: oracle_call_def apply_call_def split: if_splits sum.splits prod.splits)
    from s2 l' have "oracle_locals s' a = Some l'"
      by (auto simp: oracle_release_def oracle_remove_def split: if_splits)
    from oracle_program_auth [OF prog this]
    have "oracle_auth l' = 0 \<or>
        (\<exists>l. oracle_locals ?entry a = Some l \<and> oracle_auth l' = oracle_auth l)" .
    then show ?thesis
      by (auto simp: oracle_allocate_def split: if_splits)
  qed
qed

lemma oracle_run_unauthorized:
  "(\<And>a l. oracle_locals s a = Some l \<Longrightarrow> oracle_auth l = 0) \<Longrightarrow>
   oracle_locals (run oracle_call cs s) a = Some l \<Longrightarrow> oracle_auth l = 0"
proof (induction cs arbitrary: s)
  case Nil
  then show ?case by simp
next
  case (Cons c cs)
  have "oracle_auth l2 = 0" if "oracle_locals (state_after (oracle_call c s) s) b = Some l2" for b l2
    using oracle_call_auth [OF that] Cons.prems(1) by auto
  with Cons.IH [of "state_after (oracle_call c s) s"] Cons.prems(2) show ?case
    by simp
qed

lemma oracle_deploy_unauthorized:
  "oracle_locals (oracle_deploy c0) a = Some l \<Longrightarrow> oracle_auth l = 0"
  unfolding oracle_deploy_def
  using oracle_call_auth [of "c0\<lparr>application_id := 0\<rparr>" oracle_empty a l]
  by (auto simp: oracle_empty_def)

lemma oracle_reachable_unauthorized:
  "oracle_locals (run oracle_call cs (oracle_deploy c0)) a = Some l \<Longrightarrow> oracle_auth l = 0"
  using oracle_run_unauthorized [of "oracle_deploy c0" cs a l] oracle_deploy_unauthorized
  by blast

lemma submit_price_unauthorized:
  "(\<And>l. oracle_locals s (sender c) = Some l \<Longrightarrow> oracle_auth l = 0) \<Longrightarrow>
   submit_price c s = Inl Unauthorized \<or> submit_price c s = Inl NotRegistered"
  by (auto simp: submit_price_def split: option.splits)

lemma oracle_call_OptIn:
  assumes "on_completion c = OptIn" "application_id c \<noteq> 0" "oracle_locals s (sender c) = None"
  shows "oracle_call c s =
    Some (s\<lparr>oracle_locals := (oracle_locals s)
            (sender c \<mapsto> \<lparr>oracle_auth = 0, oracle_rep = 100, last_sub = 0\<rparr>)\<rparr>)"
  using assms
  by (simp add: oracle_call_def apply_call_def oracle_opted_in_def oracle_allocate_def
        oracle_approval_program_def on_opt_in_def)


lemma oracle_call_creation:
  assumes "application_id c = 0" "on_completion c = NoOp"
  shows "oracle_call c s =
    Some (s\<lparr>current_price := 250000, last_update := latest_timestamp c, oracle_count := 0,
            circuit_breaker := 0, total_submissions := 0\<rparr>)"
  using assms
  by (simp add: oracle_call_def apply_call_def oracle_approval_program_def oracle_on_creation_def)

lemma deployed_example:
  "oracle_deploy deploy_call =
     \<lparr>current_price = 250000, last_update = 1000, oracle_count = 0, circuit_breaker = 0,
      total_submissions = 0, oracle_locals = Map.empty\<rparr>"
proof -
  have c: "application_id (deploy_call\<lparr>application_id := 0\<rparr>) = 0 \<and>
      on_completion (deploy_call\<lparr>application_id := 0\<rparr>) = NoOp \<and>
      latest_timestamp (deploy_call\<lparr>application_id := 0\<rparr>) = 1000"
    by (simp add: deploy_call_def)
  show ?thesis
    using c by (simp add: oracle_deploy_def oracle_call_creation state_after_def oracle_empty_def)
qed

lemma registered_example:
  "run oracle_call [opt_in_7_call, authorize_7_call] (oracle_deploy deploy_call) =
     \<lparr>current_price = 250000, last_update = 1000, oracle_count = 1, circuit_breaker = 0,
      total_submissions = 0,
      oracle_locals = Map.empty(7 \<mapsto> \<lparr>oracle_auth = 0, oracle_rep = 100, last_sub = 0\<rparr>)\<rparr>"
proof -
  let ?s0 = "\<lparr>current_price = 250000, last_update = 1000, oracle_count = 0, circuit_breaker = 0,
      total_submissions = 0, oracle_locals = Map.empty\<rparr> :: oracle_state"
  let ?s1 = "\<lparr>current_price = 250000, last_update = 1000, oracle_count = 0, circuit_breaker = 0,
      total_submissions = 0,
      oracle_locals = Map.empty(7 \<mapsto> \<lparr>oracle_auth = 0, oracle_rep = 100, last_sub = 0\<rparr>)\<rparr> :: oracle_state"
  let ?s2 = "\<lparr>current_price = 250000, last_update = 1000, oracle_count = 1, circuit_breaker = 0,
      total_submissions = 0,
      oracle_locals = Map.empty(7 \<mapsto> \<lparr>oracle_auth = 0, oracle_rep = 100, last_sub = 0\<rparr>)\<rparr> :: oracle_state"
  have o: "on_completion opt_in_7_call = OptIn \<and> application_id opt_in_7_call \<noteq> 0 \<and>
      sender opt_in_7_call = 7"
    by (simp add: opt_in_7_call_def)
  have step1: "oracle_call opt_in_7_call ?s0 = Some ?s1"
    using o by (simp add: oracle_call_OptIn)
  have a: "sender authorize_7_call = creator_address authorize_7_call \<and>
      length (application_args authorize_7_call) = 2 \<and>
      application_id authorize_7_call \<noteq> 0 \<and> on_completion authorize_7_call = NoOp \<and>
      application_args authorize_7_call = ''authorize'' # [[CHR 0x07]]"
    by (simp add: authorize_7_call_def)
  have "authorize_oracle authorize_7_call ?s1 = Inr (1, ?s2)"
    using a by (simp add: authorize_oracle_def add64_def)
  moreover have "oracle_approval_program authorize_7_call ?s1 = authorize_oracle authorize_7_call ?s1"
    using a by (intro oracle_route_authorize) auto
  ultimately have step2: "oracle_call authorize_7_call ?s1 = Some ?s2"
    using a by (simp add: oracle_call_def apply_call_NoOp)
  show ?thesis
    by (simp add: deployed_example step1 step2 state_after_def)
qed

lemma submit_260000_commits:
  "submit_price submit_260000_call oracle_authorized_example =
     Inr (1, oracle_authorized_example\<lparr>current_price := 260000, last_update := 4000,
        total_submissions := 51,
        oracle_locals := (oracle_locals oracle_authorized_example)
          (7 \<mapsto> \<lparr>oracle_auth = 1, oracle_rep = 151, last_sub = 4000\<rparr>)\<rparr>)"
proof -
  have st: "oracle_locals oracle_authorized_example 7 =
        Some \<lparr>oracle_auth = 1, oracle_rep = 150, last_sub = 1000\<rparr> \<and>
      circuit_breaker oracle_authorized_example = 0 \<and>
      current_price oracle_authorized_example = 250000 \<and>
      total_submissions oracle_authorized_example = 50"
    by (simp add: oracle_authorized_example_def)
  have c1: "sender submit_260000_call = 7 \<and> length (application_args submit_260000_call) = 2 \<and>
      latest_timestamp submit_260000_call = 4000"
    by (simp add: submit_260000_call_def)
  have a1: "Btoi (application_args submit_260000_call ! 1) = Inr 260000"
    by (simp add: submit_260000_call_def Btoi_def)
  have ar: "mul64 250000 MAX_PRICE_DEVIATION = Inr 125000000 \<and>
      (125000000 :: uint64) div 10000 = 12500 \<and> add64 50 1 = Inr 51 \<and> add64 150 1 = Inr 151"
    by (simp add: mul64_def add64_def MAX_PRICE_DEVIATION_def)
  show ?thesis
    using st c1 a1 ar by (simp add: submit_price_def)
qed

lemma submit_260000_route:
  "application_id submit_260000_call \<noteq> 0 \<and> on_completion submit_260000_call = NoOp \<and>
   application_args submit_260000_call = ''submit'' # [[CHR 0x03, CHR 0xF7, CHR 0xA0]] \<and>
   sender submit_260000_call = 7"
  by (simp add: submit_260000_call_def)

lemma submit_260000_call_commits:
  "oracle_call submit_260000_call oracle_authorized_example =
     Some (oracle_authorized_example\<lparr>current_price := 260000, last_update := 4000,
        total_submissions := 51,
        oracle_locals := (oracle_locals oracle_authorized_example)
          (7 \<mapsto> \<lparr>oracle_auth = 1, oracle_rep = 151, last_sub = 4000\<rparr>)\<rparr>)"
proof -
  have "oracle_approval_program submit_260000_call oracle_authorized_example =
      submit_price submit_260000_call oracle_authorized_example"
    using submit_260000_route by (intro oracle_route_submit) auto
  then show ?thesis
    using submit_260000_route by (simp add: oracle_call_def apply_call_NoOp submit_260000_commits)
qed

section \<open>Facts about the counters\<close>



















section \<open>Facts about rejected calls\<close>

lemma apply_call_rejected:
  "on_completion c \<noteq> ClearState \<Longrightarrow>
   \<not> approved (approval c (if on_completion c = OptIn then allocate s (sender c) else s)) \<Longrightarrow>
   apply_call approval opted_in allocate release remove c s = None"
  by (cases "on_completion c = OptIn")
     (auto simp: apply_call_def approved_def split: sum.splits prod.splits)

lemma engine_call_rejected:
  "\<not> approved (engine_approval_program c e) \<Longrightarrow> engine_call c e = None"
  by (auto simp: engine_call_def apply_call_def approved_def split: sum.splits prod.splits)

lemma engine_route_distribute_yield:
  "application_id c \<noteq> 0 \<Longrightarrow> on_completion c = NoOp \<Longrightarrow>
   application_args c = ''distribute_yield'' # rest \<Longrightarrow>
   engine_approval_program c e = distribute_yield c e"
  by (simp add: engine_approval_program_def)

lemma engine_route_execute_rebalance:
  "application_id c \<noteq> 0 \<Longrightarrow> on_completion c = NoOp \<Longrightarrow>
   application_args c = ''execute_rebalance'' # rest \<Longrightarrow>
   engine_approval_program c e = execute_rebalance c e"
  by (simp add: engine_approval_program_def)

lemma distribute_yield_mismatch:
  assumes "application_args c = [''distribute_yield'', b]" "Btoi b = Inr 1000"
    "2 \<le> group_size c" "type_enum (group c ! 0) = Payment"
    "receiver (group c ! 0) = current_application_address c" "amount (group c ! 0) = 999"
  shows "distribute_yield c e = Inl GroupPaymentMismatch"
  using assms by (simp add: distribute_yield_def)

lemma execute_rebalance_slippage:
  assumes "application_args c = [''execute_rebalance'', b1, b2, b3]" "Btoi b3 = Inr slippage"
    "MAX_SLIPPAGE < slippage"
  shows "\<exists>err. execute_rebalance c e = Inl err"
  using assms
  by (auto simp: execute_rebalance_def Let_def split: sum.splits)

section \<open>RebalanceEngine: the hedge ratio\<close>

text \<open>
  C10 (amended). Whatever the arguments, a hedge ratio that \<open>calculate_hedge_ratio\<close>
  produces is at most 10000. For a call with four arguments that decode to
  \<open>portfolio_value\<close>, \<open>volatility\<close> and \<open>correlation\<close>: when
  \<open>correlation * volatility\<close> fits in 64 bits the ratio produced is
  \<open>correlation * volatility / 10000\<close> cut down to 10000 and the call returns 1 with the
  state untouched; when the product does not fit, the call fails with an arithmetic
  overflow and produces no ratio.
\<close>

theorem hedge_ratio_capped:
  "(\<forall>r. final_hedge_ratio c = Inr r \<longrightarrow> unat r \<le> 10000) \<and>
   (length (application_args c) = 4 \<and> Btoi (application_args c ! 1) = Inr portfolio_value \<and>
    Btoi (application_args c ! 2) = Inr volatility \<and>
    Btoi (application_args c ! 3) = Inr correlation \<longrightarrow>
      (unat correlation * unat volatility < 2 ^ 64 \<longrightarrow>
         (\<exists>r. final_hedge_ratio c = Inr r \<and>
              unat r = min (unat correlation * unat volatility div 10000) 10000) \<and>
         calculate_hedge_ratio c s = Inr (1, s)) \<and>
      (\<not> unat correlation * unat volatility < 2 ^ 64 \<longrightarrow>
         final_hedge_ratio c = Inl IntOverflow \<and>
         calculate_hedge_ratio c s = Inl IntOverflow))"
proof -
  have cap: "unat r \<le> 10000" if "final_hedge_ratio c = Inr r" for r
    using that
    by (auto simp: final_hedge_ratio_def Let_def word_le_nat_alt word_less_nat_alt
             split: if_splits sum.splits)
  have ok: "\<exists>r. final_hedge_ratio c = Inr r \<and>
              unat r = min (unat correlation * unat volatility div 10000) 10000"
    if "length (application_args c) = 4" "Btoi (application_args c ! 1) = Inr portfolio_value"
       "Btoi (application_args c ! 2) = Inr volatility"
       "Btoi (application_args c ! 3) = Inr correlation"
       "unat correlation * unat volatility < 2 ^ 64"
    using that
    by (auto simp: final_hedge_ratio_def Let_def mul64_def unat_div
                   unat_mult_lem [THEN iffD1] word_less_nat_alt min_def)
  have bad: "final_hedge_ratio c = Inl IntOverflow"
    if "length (application_args c) = 4" "Btoi (application_args c ! 1) = Inr portfolio_value"
       "Btoi (application_args c ! 2) = Inr volatility"
       "Btoi (application_args c ! 3) = Inr correlation"
       "\<not> unat correlation * unat volatility < 2 ^ 64"
    using that by (simp add: final_hedge_ratio_def mul64_def)
  show ?thesis
    using cap ok bad by (auto simp: calculate_hedge_ratio_def)
qed

theorem hedge_ratio_capped_witness:
  "length (application_args hedge_call) = 4 \<and>
   Btoi (application_args hedge_call ! 1) = Inr 1 \<and>
   Btoi (application_args hedge_call ! 2) = Inr 20000 \<and>
   Btoi (application_args hedge_call ! 3) = Inr 20000 \<and>
   unat (20000 :: uint64) * unat (20000 :: uint64) < 2 ^ 64 \<and>
   (\<exists>r. final_hedge_ratio hedge_call = Inr r \<and> unat r = 10000) \<and>
   calculate_hedge_ratio hedge_call engine_example = Inr (1, engine_example)"
proof -
  have args: "length (application_args hedge_call) = 4 \<and>
      Btoi (application_args hedge_call ! 1) = Inr 1 \<and>
      Btoi (application_args hedge_call ! 2) = Inr 20000 \<and>
      Btoi (application_args hedge_call ! 3) = Inr 20000"
    by (simp add: hedge_call_def Btoi_def)
  have fits: "unat (20000 :: uint64) * unat (20000 :: uint64) < 2 ^ 64"
    by simp
  have cut: "min (unat (20000 :: uint64) * unat (20000 :: uint64) div 10000) 10000 = 10000"
    by simp
  from hedge_ratio_capped [of hedge_call 1 20000 20000 engine_example] args fits
  have "(\<exists>r. final_hedge_ratio hedge_call = Inr r \<and>
             unat r = min (unat (20000 :: uint64) * unat (20000 :: uint64) div 10000) 10000) \<and>
        calculate_hedge_ratio hedge_call engine_example = Inr (1, engine_example)"
    by blast
  then have "(\<exists>r. final_hedge_ratio hedge_call = Inr r \<and> unat r = 10000) \<and>
        calculate_hedge_ratio hedge_call engine_example = Inr (1, engine_example)"
    by (simp only: cut)
  then show ?thesis
    using args fits by blast
qed

text \<open>
  The claim as written has the ratio truncated, never rejected, for all inputs. With
  volatility and correlation both \<open>2 ^ 32\<close> the product needs 65 bits: the multiplication
  fails and the ledger rejects the call.
\<close>

theorem hedge_ratio_overflow_counterexample:
  "Btoi (application_args hedge_overflow_call ! 2) = Inr 4294967296 \<and>
   Btoi (application_args hedge_overflow_call ! 3) = Inr 4294967296 \<and>
   final_hedge_ratio hedge_overflow_call = Inl IntOverflow \<and>
   calculate_hedge_ratio hedge_overflow_call engine_example = Inl IntOverflow \<and>
   engine_call hedge_overflow_call engine_example = None"
proof -
  have args: "Btoi (application_args hedge_overflow_call ! 2) = Inr 4294967296 \<and>
      Btoi (application_args hedge_overflow_call ! 3) = Inr 4294967296"
    by (simp add: hedge_overflow_call_def Btoi_def)
  have final: "final_hedge_ratio hedge_overflow_call = Inl IntOverflow"
    by (simp add: hedge_overflow_call_def final_hedge_ratio_def Btoi_def mul64_def)
  have calc: "calculate_hedge_ratio hedge_overflow_call engine_example = Inl IntOverflow"
    by (simp add: calculate_hedge_ratio_def final)
  have route: "engine_approval_program hedge_overflow_call engine_example =
      calculate_hedge_ratio hedge_overflow_call engine_example"
    by (simp add: engine_approval_program_def hedge_overflow_call_def)
  have "engine_call hedge_overflow_call engine_example = None"
    by (simp add: engine_call_def apply_call_def route calc)
  then show ?thesis
    using args final calc by blast
qed

section \<open>EnterprisePriceOracle: reading the price\<close>

text \<open>
  C7. \<open>get_price\<close> fails with \<open>StalePrice\<close> exactly when the time of the call is more
  than 3600 seconds after \<open>last_update\<close>, whatever the circuit breaker holds: the
  staleness assertion comes first, and changing the circuit breaker does not change
  whether the result is \<open>StalePrice\<close>. When the age of the price is between 0 and 3600
  and the circuit breaker is clear, the call returns \<open>current_price\<close> and writes nothing.
\<close>

theorem get_price_stale_iff:
  "((get_price c s = Inl StalePrice) =
      (3600 < uint (latest_timestamp c) - uint (last_update s))) \<and>
   ((get_price c (s\<lparr>circuit_breaker := b\<rparr>) = Inl StalePrice) = (get_price c s = Inl StalePrice)) \<and>
   (0 \<le> uint (latest_timestamp c) - uint (last_update s) \<and>
    uint (latest_timestamp c) - uint (last_update s) \<le> 3600 \<and>
    circuit_breaker s = 0 \<longrightarrow> get_price c s = Inr (current_price s, s))"
proof -
  have thr: "uint STALENESS_THRESHOLD = 3600"
    by (simp add: STALENESS_THRESHOLD_def)
  have age: "uint (latest_timestamp c - last_update s') =
      uint (latest_timestamp c) - uint (last_update s')"
    if "last_update s' \<le> latest_timestamp c" for s' :: oracle_state
    using that by (simp add: word_le_def uint_sub_lem [THEN iffD1])
  have stale: "(get_price c s' = Inl StalePrice) =
      (3600 < uint (latest_timestamp c) - uint (last_update s'))" for s' :: oracle_state
  proof (cases "last_update s' \<le> latest_timestamp c")
    case True
    then show ?thesis
      using age [OF True] by (auto simp: get_price_def sub64_def Let_def word_le_def thr)
  next
    case False
    then have "uint (latest_timestamp c) < uint (last_update s')"
      by (simp add: word_le_def)
    then show ?thesis
      using False by (simp add: get_price_def sub64_def)
  qed
  have fresh: "get_price c s = Inr (current_price s, s)"
    if "0 \<le> uint (latest_timestamp c) - uint (last_update s)"
       "uint (latest_timestamp c) - uint (last_update s) \<le> 3600" "circuit_breaker s = 0"
  proof -
    from that(1) have le: "last_update s \<le> latest_timestamp c"
      by (simp add: word_le_def)
    show ?thesis
      using that le age [OF le] by (simp add: get_price_def sub64_def word_le_def thr)
  qed
  show ?thesis
    using stale [of s] stale [of "s\<lparr>circuit_breaker := b\<rparr>"] fresh by simp
qed

theorem get_price_stale_iff_witness:
  "0 \<le> uint (latest_timestamp get_price_call) - uint (last_update oracle_example) \<and>
   uint (latest_timestamp get_price_call) - uint (last_update oracle_example) \<le> 3600 \<and>
   circuit_breaker oracle_example = 0 \<and>
   get_price get_price_call oracle_example = Inr (250000, oracle_example)"
proof -
  have pre: "0 \<le> uint (latest_timestamp get_price_call) - uint (last_update oracle_example) \<and>
      uint (latest_timestamp get_price_call) - uint (last_update oracle_example) \<le> 3600 \<and>
      circuit_breaker oracle_example = 0"
    by (simp add: get_price_call_def oracle_example_def)
  have price: "current_price oracle_example = 250000"
    by (simp add: oracle_example_def)
  from get_price_stale_iff [of get_price_call oracle_example] pre
  have "get_price get_price_call oracle_example = Inr (current_price oracle_example, oracle_example)"
    by blast
  then show ?thesis
    using pre price by simp
qed

section \<open>RiskManager: positions without a balance\<close>

text \<open>
  C8. For every collateral and every price, a \<open>calculate_risk\<close> call with balance 0, made
  by an account that has opted in, stores the risk score 10000, and a \<open>check_liquidation\<close>
  call with balance 0 returns 0 (false). Neither operation can fail with a division by
  zero, whatever its arguments: the division is only evaluated when the balance is above 0.
\<close>

theorem zero_balance_is_healthy:
  "(length (application_args c) = 4 \<and> Btoi (application_args c ! 1) = Inr collateral \<and>
    Btoi (application_args c ! 2) = Inr 0 \<and> Btoi (application_args c ! 3) = Inr price \<and>
    risk_locals s (sender c) = Some l \<longrightarrow>
      calculate_risk_score c s =
        Inr (1, s\<lparr>risk_locals := (risk_locals s)
                  (sender c \<mapsto> l\<lparr>user_risk_score := 10000,
                                  user_liquidation_price := 10000\<rparr>)\<rparr>)) \<and>
   (length (application_args c') = 5 \<and> Btoi (application_args c' ! 2) = Inr collateral \<and>
    Btoi (application_args c' ! 3) = Inr 0 \<and> Btoi (application_args c' ! 4) = Inr price \<longrightarrow>
      check_liquidation c' s = Inr (0, s)) \<and>
   calculate_risk_score c s \<noteq> Inl DivByZero \<and>
   check_liquidation c' s \<noteq> Inl DivByZero"
proof -
  have score: "calculate_risk_score c s \<noteq> Inl DivByZero"
    using collateral_ratio_no_div_by_zero
    by (auto simp: calculate_risk_score_def Btoi_def split: sum.splits option.splits)
  have liq: "check_liquidation c' s \<noteq> Inl DivByZero"
    using collateral_ratio_no_div_by_zero
    by (auto simp: check_liquidation_def Btoi_def split: sum.splits)
  show ?thesis
    using score liq
    by (simp add: calculate_risk_score_def check_liquidation_def collateral_ratio_zero
          LIQUIDATION_THRESHOLD_def)
qed

theorem zero_balance_is_healthy_witness:
  "length (application_args score_zero_balance_call) = 4 \<and>
   Btoi (application_args score_zero_balance_call ! 1) = Inr 100 \<and>
   Btoi (application_args score_zero_balance_call ! 2) = Inr 0 \<and>
   Btoi (application_args score_zero_balance_call ! 3) = Inr 250000 \<and>
   risk_locals risk_example (sender score_zero_balance_call) =
     Some \<lparr>user_risk_score = 0, user_delta_exposure = 0, user_liquidation_price = 0\<rparr> \<and>
   length (application_args check_zero_balance_call) = 5 \<and>
   Btoi (application_args check_zero_balance_call ! 2) = Inr 100 \<and>
   Btoi (application_args check_zero_balance_call ! 3) = Inr 0 \<and>
   Btoi (application_args check_zero_balance_call ! 4) = Inr 250000 \<and>
   calculate_risk_score score_zero_balance_call risk_example =
     Inr (1, risk_example\<lparr>risk_locals := (risk_locals risk_example)
        (5 \<mapsto> \<lparr>user_risk_score = 10000, user_delta_exposure = 0,
                user_liquidation_price = 10000\<rparr>)\<rparr>) \<and>
   check_liquidation check_zero_balance_call risk_example = Inr (0, risk_example)"
proof -
  have a: "length (application_args score_zero_balance_call) = 4 \<and>
      Btoi (application_args score_zero_balance_call ! 1) = Inr 100 \<and>
      Btoi (application_args score_zero_balance_call ! 2) = Inr 0 \<and>
      Btoi (application_args score_zero_balance_call ! 3) = Inr 250000"
    by (simp add: score_zero_balance_call_def Btoi_def)
  have l: "risk_locals risk_example (sender score_zero_balance_call) =
      Some \<lparr>user_risk_score = 0, user_delta_exposure = 0, user_liquidation_price = 0\<rparr>"
    by (simp add: score_zero_balance_call_def risk_example_def)
  have b: "length (application_args check_zero_balance_call) = 5 \<and>
      Btoi (application_args check_zero_balance_call ! 2) = Inr 100 \<and>
      Btoi (application_args check_zero_balance_call ! 3) = Inr 0 \<and>
      Btoi (application_args check_zero_balance_call ! 4) = Inr 250000"
    by (simp add: check_zero_balance_call_def Btoi_def)
  have snd: "sender score_zero_balance_call = 5"
    by (simp add: score_zero_balance_call_def)
  from zero_balance_is_healthy [where c = score_zero_balance_call and c' = check_zero_balance_call
      and s = risk_example and collateral = 100 and price = 250000
      and l = "\<lparr>user_risk_score = 0, user_delta_exposure = 0, user_liquidation_price = 0\<rparr>"] a l b
  have "calculate_risk_score score_zero_balance_call risk_example =
      Inr (1, risk_example\<lparr>risk_locals := (risk_locals risk_example)
        (sender score_zero_balance_call \<mapsto>
           \<lparr>user_risk_score = 0, user_delta_exposure = 0, user_liquidation_price = 0\<rparr>
           \<lparr>user_risk_score := 10000, user_liquidation_price := 10000\<rparr>)\<rparr>) \<and>
     check_liquidation check_zero_balance_call risk_example = Inr (0, risk_example)"
    by blast
  then have "calculate_risk_score score_zero_balance_call risk_example =
      Inr (1, risk_example\<lparr>risk_locals := (risk_locals risk_example)
        (5 \<mapsto> \<lparr>user_risk_score = 10000, user_delta_exposure = 0,
                user_liquidation_price = 10000\<rparr>)\<rparr>) \<and>
     check_liquidation check_zero_balance_call risk_example = Inr (0, risk_example)"
    by (simp add: snd)
  then show ?thesis
    using a l b by blast
qed

section \<open>RiskManager: the liquidation threshold\<close>

text \<open>
  C4. With collateral 100 and balance 200 \<open>calculate_risk_score\<close> stores the risk score
  5000. \<open>check_liquidation\<close> computes the same 5000, on the scale where 10000 is 100%, and
  compares it with \<open>LIQUIDATION_THRESHOLD = 120\<close>, which the source describes as 120%:
  5000 is not below 120, so the call returns 0 and the position with a 50% collateral
  ratio is not reported for liquidation.
\<close>

theorem check_liquidation_100_200:
  "Btoi (application_args score_100_200_call ! 1) = Inr 100 \<and>
   Btoi (application_args score_100_200_call ! 2) = Inr 200 \<and>
   calculate_risk_score score_100_200_call risk_example =
     Inr (1, risk_example\<lparr>risk_locals := (risk_locals risk_example)
        (5 \<mapsto> \<lparr>user_risk_score = 5000, user_delta_exposure = 0,
                user_liquidation_price = 5000\<rparr>)\<rparr>) \<and>
   Btoi (application_args check_100_200_call ! 2) = Inr 100 \<and>
   Btoi (application_args check_100_200_call ! 3) = Inr 200 \<and>
   check_liquidation check_100_200_call risk_example = Inr (0, risk_example) \<and>
   risk_call check_100_200_call risk_example = None"
proof -
  have ratio: "collateral_ratio 100 200 = Inr 5000"
    by (simp add: collateral_ratio_def mul64_def div64_def)
  have l: "length (application_args score_100_200_call) = 4 \<and>
      sender score_100_200_call = 5 \<and>
      risk_locals risk_example 5 =
        Some \<lparr>user_risk_score = 0, user_delta_exposure = 0, user_liquidation_price = 0\<rparr>"
    by (simp add: score_100_200_call_def risk_example_def)
  have a: "Btoi (application_args score_100_200_call ! 1) = Inr 100 \<and>
      Btoi (application_args score_100_200_call ! 2) = Inr 200 \<and>
      Btoi (application_args score_100_200_call ! 3) = Inr 250000"
    by (simp add: score_100_200_call_def Btoi_def)
  have b: "length (application_args check_100_200_call) = 5 \<and>
      Btoi (application_args check_100_200_call ! 2) = Inr 100 \<and>
      Btoi (application_args check_100_200_call ! 3) = Inr 200 \<and>
      Btoi (application_args check_100_200_call ! 4) = Inr 250000"
    by (simp add: check_100_200_call_def Btoi_def)
  have score: "calculate_risk_score score_100_200_call risk_example =
     Inr (1, risk_example\<lparr>risk_locals := (risk_locals risk_example)
        (5 \<mapsto> \<lparr>user_risk_score = 5000, user_delta_exposure = 0,
                user_liquidation_price = 5000\<rparr>)\<rparr>)"
    using a l ratio by (simp add: calculate_risk_score_def)
  have check: "check_liquidation check_100_200_call risk_example = Inr (0, risk_example)"
    using b ratio by (simp add: check_liquidation_def LIQUIDATION_THRESHOLD_def)
  have route: "risk_approval_program check_100_200_call risk_example =
      check_liquidation check_100_200_call risk_example"
    by (simp add: risk_approval_program_def check_100_200_call_def)
  have noop: "on_completion check_100_200_call = NoOp"
    by (simp add: check_100_200_call_def)
  have "risk_call check_100_200_call risk_example = None"
    by (simp add: risk_call_def apply_call_NoOp [OF noop] route check)
  then show ?thesis
    using a b score check by blast
qed

section \<open>RiskManager: the companion payment of a liquidation\<close>

text \<open>
  C5. \<open>execute_liquidation\<close> is approved for a liquidation amount of 1000000 although the
  first transaction of the group pays only 1 to the application: the program checks the
  type and the receiver of that payment and never compares its amount with the argument.
  The liquidation pool grows by the fee on the declared amount, 25000.
\<close>

theorem execute_liquidation_ignores_amount:
  "type_enum (group liquidation_call ! 0) = Payment \<and>
   receiver (group liquidation_call ! 0) = current_application_address liquidation_call \<and>
   amount (group liquidation_call ! 0) = 1 \<and>
   Btoi (application_args liquidation_call ! 2) = Inr 1000000 \<and>
   execute_liquidation liquidation_call risk_example =
     Inr (1, risk_example\<lparr>liquidation_pool := 25000\<rparr>) \<and>
   risk_call liquidation_call risk_example = Some (risk_example\<lparr>liquidation_pool := 25000\<rparr>)"
proof -
  have g: "type_enum (group liquidation_call ! 0) = Payment \<and>
      receiver (group liquidation_call ! 0) = current_application_address liquidation_call \<and>
      amount (group liquidation_call ! 0) = 1 \<and> group_size liquidation_call = 2 \<and>
      length (application_args liquidation_call) = 5"
    by (simp add: liquidation_call_def group_size_def)
  have a: "Btoi (application_args liquidation_call ! 2) = Inr 1000000 \<and>
      Btoi (application_args liquidation_call ! 3) = Inr 250000"
    by (simp add: liquidation_call_def Btoi_def)
  have fee: "mul64 1000000 LIQUIDATION_PENALTY = Inr 500000000 \<and>
      (500000000 :: uint64) div 10000 div 2 = 25000"
    by (simp add: mul64_def LIQUIDATION_PENALTY_def)
  have pool: "add64 (liquidation_pool risk_example) 25000 = Inr 25000"
    by (simp add: add64_def risk_example_def)
  have exec: "execute_liquidation liquidation_call risk_example =
      Inr (1, risk_example\<lparr>liquidation_pool := 25000\<rparr>)"
    using g a fee pool by (simp add: execute_liquidation_def)
  have route: "risk_approval_program liquidation_call risk_example =
      execute_liquidation liquidation_call risk_example"
    by (simp add: risk_approval_program_def liquidation_call_def)
  have noop: "on_completion liquidation_call = NoOp"
    by (simp add: liquidation_call_def)
  have "risk_call liquidation_call risk_example = Some (risk_example\<lparr>liquidation_pool := 25000\<rparr>)"
    by (simp add: risk_call_def apply_call_NoOp [OF noop] route exec)
  then show ?thesis
    using g a exec by blast
qed

section \<open>EnterprisePriceOracle: the deviation bound\<close>

lemma submit_price_commits:
  assumes "submit_price c s = Inr (v, s')"
  shows "\<exists>p. Btoi (application_args c ! 1) = Inr p \<and> current_price s' = p \<and>
          \<bar>uint p - uint (current_price s)\<bar> \<le> uint (current_price s) * 500 div 10000"
proof -
  from assms obtain l p m where
    p: "Btoi (application_args c ! 1) = Inr p" and
    m: "mul64 (current_price s) MAX_PRICE_DEVIATION = Inr m" and
    le: "(if current_price s < p then p - current_price s else current_price s - p) \<le> m div 10000" and
    cp: "current_price s' = p"
    by (auto simp: submit_price_def Let_def split: option.splits if_splits sum.splits)
  from le have "uint (if current_price s < p then p - current_price s else current_price s - p)
      \<le> uint (m div 10000)"
    by (simp only: word_le_def)
  then have "\<bar>uint p - uint (current_price s)\<bar> \<le> uint (current_price s) * 500 div 10000"
    by (simp only: price_diff_uint max_deviation_uint [OF m])
  with p cp show ?thesis by blast
qed

lemma submit_price_rejects:
  assumes p: "Btoi (application_args c ! 1) = Inr p"
    and far: "uint (current_price s) * 500 div 10000 < \<bar>uint p - uint (current_price s)\<bar>"
  shows "\<exists>e. submit_price c s = Inl e"
proof (cases "submit_price c s")
  case (Inl e)
  then show ?thesis by blast
next
  case (Inr r)
  then obtain v s' where "submit_price c s = Inr (v, s')" by (cases r) simp
  from submit_price_commits [OF this] p far show ?thesis by auto
qed

text \<open>
  C1. For every state: a \<open>submit_price\<close> call that commits has decoded its second argument
  to a price \<open>p\<close>, has made it the current price, and \<open>p\<close> differs from the price before
  by at most \<open>price_before * 500 / 10000\<close>. A \<open>submit_price\<close> call whose price differs by
  more than that fails; when it reaches the contract as a \<open>submit\<close> call the ledger rejects
  it and \<open>current_price\<close> is what it was.
\<close>

theorem submit_price_within_deviation:
  "(submit_price c s = Inr (v, s') \<longrightarrow>
      (\<exists>p. Btoi (application_args c ! 1) = Inr p \<and> current_price s' = p \<and>
           \<bar>uint p - uint (current_price s)\<bar> \<le> uint (current_price s) * 500 div 10000)) \<and>
   (Btoi (application_args c' ! 1) = Inr q \<and>
    uint (current_price s) * 500 div 10000 < \<bar>uint q - uint (current_price s)\<bar> \<longrightarrow>
      (\<exists>e. submit_price c' s = Inl e) \<and>
      (application_id c' \<noteq> 0 \<and> on_completion c' = NoOp \<and>
       application_args c' = ''submit'' # rest \<longrightarrow>
         oracle_call c' s = None \<and>
         current_price (state_after (oracle_call c' s) s) = current_price s))"
proof -
  have rejected: "oracle_call c' s = None \<and>
      current_price (state_after (oracle_call c' s) s) = current_price s"
    if fail: "submit_price c' s = Inl e"
      and route: "application_id c' \<noteq> 0" "on_completion c' = NoOp"
        "application_args c' = ''submit'' # rest" for e
  proof -
    have "oracle_approval_program c' s = Inl e"
      using oracle_route_submit [OF route] fail by simp
    then have "oracle_call c' s = None"
      by (simp add: oracle_call_def apply_call_NoOp [OF route(2)])
    then show ?thesis by (simp add: state_after_def)
  qed
  show ?thesis
    using submit_price_commits [of c s v s'] submit_price_rejects [of c' q s] rejected
    by blast
qed

theorem submit_price_within_deviation_witness:
  "submit_price submit_260000_call oracle_authorized_example =
     Inr (1, oracle_authorized_example\<lparr>current_price := 260000, last_update := 4000,
        total_submissions := 51,
        oracle_locals := (oracle_locals oracle_authorized_example)
          (7 \<mapsto> \<lparr>oracle_auth = 1, oracle_rep = 151, last_sub = 4000\<rparr>)\<rparr>) \<and>
   Btoi (application_args submit_260000_call ! 1) = Inr 260000 \<and>
   \<bar>uint (260000 :: uint64) - uint (current_price oracle_authorized_example)\<bar>
     \<le> uint (current_price oracle_authorized_example) * 500 div 10000 \<and>
   Btoi (application_args submit_300000_call ! 1) = Inr 300000 \<and>
   uint (current_price oracle_authorized_example) * 500 div 10000
     < \<bar>uint (300000 :: uint64) - uint (current_price oracle_authorized_example)\<bar> \<and>
   application_id submit_300000_call \<noteq> 0 \<and> on_completion submit_300000_call = NoOp \<and>
   application_args submit_300000_call = ''submit'' # [[CHR 0x04, CHR 0x93, CHR 0xE0]] \<and>
   (\<exists>e. submit_price submit_300000_call oracle_authorized_example = Inl e) \<and>
   oracle_call submit_300000_call oracle_authorized_example = None \<and>
   current_price (state_after (oracle_call submit_300000_call oracle_authorized_example)
     oracle_authorized_example) = 250000"
proof -
  let ?s = oracle_authorized_example
  let ?s' = "oracle_authorized_example\<lparr>current_price := 260000, last_update := 4000,
        total_submissions := 51,
        oracle_locals := (oracle_locals oracle_authorized_example)
          (7 \<mapsto> \<lparr>oracle_auth = 1, oracle_rep = 151, last_sub = 4000\<rparr>)\<rparr>"
  have st: "oracle_locals ?s 7 = Some \<lparr>oracle_auth = 1, oracle_rep = 150, last_sub = 1000\<rparr> \<and>
      circuit_breaker ?s = 0 \<and> current_price ?s = 250000 \<and> total_submissions ?s = 50"
    by (simp add: oracle_authorized_example_def)
  have c1: "sender submit_260000_call = 7 \<and> length (application_args submit_260000_call) = 2 \<and>
      latest_timestamp submit_260000_call = 4000"
    by (simp add: submit_260000_call_def)
  have a1: "Btoi (application_args submit_260000_call ! 1) = Inr 260000"
    by (simp add: submit_260000_call_def Btoi_def)
  have ar: "mul64 250000 MAX_PRICE_DEVIATION = Inr 125000000 \<and>
      (125000000 :: uint64) div 10000 = 12500 \<and> add64 50 1 = Inr 51 \<and> add64 150 1 = Inr 151"
    by (simp add: mul64_def add64_def MAX_PRICE_DEVIATION_def)
  have commit: "submit_price submit_260000_call ?s = Inr (1, ?s')"
    using st c1 a1 ar by (simp add: submit_price_def)
  have c2: "application_id submit_300000_call \<noteq> 0 \<and> on_completion submit_300000_call = NoOp \<and>
      application_args submit_300000_call = ''submit'' # [[CHR 0x04, CHR 0x93, CHR 0xE0]]"
    by (simp add: submit_300000_call_def)
  have a2: "Btoi (application_args submit_300000_call ! 1) = Inr 300000"
    by (simp add: submit_300000_call_def Btoi_def)
  have far: "uint (current_price ?s) * 500 div 10000
      < \<bar>uint (300000 :: uint64) - uint (current_price ?s)\<bar>"
    by (simp add: st)
  note inst = submit_price_within_deviation [of submit_260000_call ?s 1 ?s' submit_300000_call
      300000 "[[CHR 0x04, CHR 0x93, CHR 0xE0]]"]
  from inst commit have
    "\<exists>p. Btoi (application_args submit_260000_call ! 1) = Inr p \<and> current_price ?s' = p \<and>
         \<bar>uint p - uint (current_price ?s)\<bar> \<le> uint (current_price ?s) * 500 div 10000"
    by blast
  with a1 have near: "\<bar>uint (260000 :: uint64) - uint (current_price ?s)\<bar>
      \<le> uint (current_price ?s) * 500 div 10000"
    by auto
  from inst a2 far c2 have rej: "(\<exists>e. submit_price submit_300000_call ?s = Inl e) \<and>
      oracle_call submit_300000_call ?s = None \<and>
      current_price (state_after (oracle_call submit_300000_call ?s) ?s) = current_price ?s"
    by blast
  have cp: "current_price ?s = 250000"
    using st by blast
  from rej have "current_price (state_after (oracle_call submit_300000_call ?s) ?s) =
      current_price ?s"
    by blast
  then have "current_price (state_after (oracle_call submit_300000_call ?s) ?s) = 250000"
    by (simp only: cp)
  then show ?thesis
    using commit a1 near a2 far c2 rej by blast
qed

section \<open>EnterprisePriceOracle: authorising an oracle\<close>

text \<open>
  C2. The creator authorises account 7, which has opted in and holds \<open>oracle_auth = 0\<close>:
  the call is approved, \<open>oracle_count\<close> goes from 0 to 1, and account 7 still holds
  \<open>oracle_auth = 0\<close>. Authorising account 8, which never opted in, is approved in the same
  way. The program checks the sender and the number of arguments; it does not look at the
  target and does not write the flag that \<open>submit_price\<close> requires to be 1.
\<close>

theorem authorize_oracle_leaves_flag:
  "sender authorize_7_call = creator_address authorize_7_call \<and>
   oracle_locals oracle_example 7 = Some \<lparr>oracle_auth = 0, oracle_rep = 100, last_sub = 0\<rparr> \<and>
   authorize_oracle authorize_7_call oracle_example =
     Inr (1, oracle_example\<lparr>oracle_count := 1\<rparr>) \<and>
   oracle_call authorize_7_call oracle_example = Some (oracle_example\<lparr>oracle_count := 1\<rparr>) \<and>
   oracle_locals (oracle_example\<lparr>oracle_count := 1\<rparr>) 7 =
     Some \<lparr>oracle_auth = 0, oracle_rep = 100, last_sub = 0\<rparr> \<and>
   oracle_locals oracle_example 8 = None \<and>
   authorize_oracle authorize_8_call oracle_example =
     Inr (1, oracle_example\<lparr>oracle_count := 1\<rparr>) \<and>
   oracle_call authorize_8_call oracle_example = Some (oracle_example\<lparr>oracle_count := 1\<rparr>)"
proof -
  have st: "oracle_locals oracle_example 7 =
        Some \<lparr>oracle_auth = 0, oracle_rep = 100, last_sub = 0\<rparr> \<and>
      oracle_locals oracle_example 8 = None \<and>
      oracle_locals (oracle_example\<lparr>oracle_count := 1\<rparr>) 7 =
        Some \<lparr>oracle_auth = 0, oracle_rep = 100, last_sub = 0\<rparr> \<and>
      add64 (oracle_count oracle_example) 1 = Inr 1"
    by (simp add: oracle_example_def add64_def)
  have c7: "sender authorize_7_call = creator_address authorize_7_call \<and>
      length (application_args authorize_7_call) = 2 \<and>
      application_id authorize_7_call \<noteq> 0 \<and> on_completion authorize_7_call = NoOp \<and>
      application_args authorize_7_call = ''authorize'' # [[CHR 0x07]]"
    by (simp add: authorize_7_call_def)
  have c8: "sender authorize_8_call = creator_address authorize_8_call \<and>
      length (application_args authorize_8_call) = 2 \<and>
      application_id authorize_8_call \<noteq> 0 \<and> on_completion authorize_8_call = NoOp \<and>
      application_args authorize_8_call = ''authorize'' # [[CHR 0x08]]"
    by (simp add: authorize_8_call_def)
  have r7: "authorize_oracle authorize_7_call oracle_example =
      Inr (1, oracle_example\<lparr>oracle_count := 1\<rparr>)"
    using st c7 by (simp add: authorize_oracle_def)
  have r8: "authorize_oracle authorize_8_call oracle_example =
      Inr (1, oracle_example\<lparr>oracle_count := 1\<rparr>)"
    using st c8 by (simp add: authorize_oracle_def)
  have p7: "oracle_approval_program authorize_7_call oracle_example =
      authorize_oracle authorize_7_call oracle_example"
    using c7 by (intro oracle_route_authorize) auto
  have p8: "oracle_approval_program authorize_8_call oracle_example =
      authorize_oracle authorize_8_call oracle_example"
    using c8 by (intro oracle_route_authorize) auto
  have l7: "oracle_call authorize_7_call oracle_example = Some (oracle_example\<lparr>oracle_count := 1\<rparr>)"
    using c7 by (simp add: oracle_call_def apply_call_NoOp p7 r7)
  have l8: "oracle_call authorize_8_call oracle_example = Some (oracle_example\<lparr>oracle_count := 1\<rparr>)"
    using c8 by (simp add: oracle_call_def apply_call_NoOp p8 r8)
  show ?thesis
    using st c7 r7 r8 l7 l8 by blast
qed

section \<open>EnterprisePriceOracle: the authorised flag is never set\<close>

text \<open>
  C3. No call to the oracle puts 1 into an account's \<open>oracle_auth\<close>: an account that holds
  the flag 1 after a call held it before; opt-in writes 0; \<open>authorize_oracle\<close> leaves all
  local state as it was. So in every state reached from deployment by any run of calls
  every account that has opted in holds \<open>oracle_auth = 0\<close>, every \<open>submit_price\<close> fails at
  its first assertion (or for want of local state), and every \<open>submit\<close> call is rejected.
\<close>

theorem oracle_never_authorizes:
  "(oracle_locals (state_after (oracle_call c s) s) a = Some l' \<and> oracle_auth l' = 1 \<longrightarrow>
      (\<exists>l. oracle_locals s a = Some l \<and> oracle_auth l = 1)) \<and>
   (on_opt_in c s = Inr (v, s') \<longrightarrow>
      (\<exists>l. oracle_locals s' (sender c) = Some l \<and> oracle_auth l = 0)) \<and>
   (authorize_oracle c s = Inr (v, s') \<longrightarrow> oracle_locals s' = oracle_locals s) \<and>
   (oracle_locals (run oracle_call cs (oracle_deploy c0)) a = Some l \<longrightarrow> oracle_auth l = 0) \<and>
   (submit_price c (run oracle_call cs (oracle_deploy c0)) = Inl Unauthorized \<or>
    submit_price c (run oracle_call cs (oracle_deploy c0)) = Inl NotRegistered) \<and>
   (application_id c \<noteq> 0 \<and> on_completion c = NoOp \<and> application_args c = ''submit'' # rest \<longrightarrow>
      oracle_call c (run oracle_call cs (oracle_deploy c0)) = None)"
proof -
  let ?r = "run oracle_call cs (oracle_deploy c0)"
  have step: "\<exists>l. oracle_locals s a = Some l \<and> oracle_auth l = 1"
    if "oracle_locals (state_after (oracle_call c s) s) a = Some l'" "oracle_auth l' = 1"
    using oracle_call_auth [OF that(1)] that(2) by auto
  have reg: "\<exists>l. oracle_locals s' (sender c) = Some l \<and> oracle_auth l = 0"
    if "on_opt_in c s = Inr (v, s')"
    using that by (auto simp: on_opt_in_def split: option.splits)
  have sub: "submit_price c ?r = Inl Unauthorized \<or> submit_price c ?r = Inl NotRegistered"
    by (rule submit_price_unauthorized) (rule oracle_reachable_unauthorized)
  have rej: "oracle_call c ?r = None"
    if route: "application_id c \<noteq> 0" "on_completion c = NoOp"
       "application_args c = ''submit'' # rest"
  proof -
    from sub obtain e where "submit_price c ?r = Inl e" by blast
    then have "oracle_approval_program c ?r = Inl e"
      using oracle_route_submit [OF route] by simp
    then show ?thesis
      by (simp add: oracle_call_def apply_call_NoOp [OF route(2)])
  qed
  show ?thesis
    using step reg authorize_oracle_locals [of c s v s'] oracle_reachable_unauthorized [of cs c0 a l]
      sub rej
    by blast
qed

theorem oracle_never_authorizes_witness:
  "oracle_locals (state_after (oracle_call submit_260000_call oracle_authorized_example)
      oracle_authorized_example) 7 = Some \<lparr>oracle_auth = 1, oracle_rep = 151, last_sub = 4000\<rparr> \<and>
   (\<exists>l. oracle_locals oracle_authorized_example 7 = Some l \<and> oracle_auth l = 1) \<and>
   oracle_locals (run oracle_call [opt_in_7_call, authorize_7_call] (oracle_deploy deploy_call)) 7 =
     Some \<lparr>oracle_auth = 0, oracle_rep = 100, last_sub = 0\<rparr> \<and>
   oracle_auth \<lparr>oracle_auth = 0, oracle_rep = 100, last_sub = 0\<rparr> = 0 \<and>
   application_id submit_260000_call \<noteq> 0 \<and> on_completion submit_260000_call = NoOp \<and>
   application_args submit_260000_call = ''submit'' # [[CHR 0x03, CHR 0xF7, CHR 0xA0]] \<and>
   submit_price submit_260000_call
     (run oracle_call [opt_in_7_call, authorize_7_call] (oracle_deploy deploy_call)) =
     Inl Unauthorized \<and>
   oracle_call submit_260000_call
     (run oracle_call [opt_in_7_call, authorize_7_call] (oracle_deploy deploy_call)) = None"
proof -
  let ?r = "run oracle_call [opt_in_7_call, authorize_7_call] (oracle_deploy deploy_call)"
  let ?l = "\<lparr>oracle_auth = 0, oracle_rep = 100, last_sub = 0\<rparr>"
  let ?l' = "\<lparr>oracle_auth = 1, oracle_rep = 151, last_sub = 4000\<rparr>"
  have after: "oracle_locals (state_after (oracle_call submit_260000_call oracle_authorized_example)
      oracle_authorized_example) 7 = Some ?l'"
    by (simp add: submit_260000_call_commits state_after_def)
  have flag: "oracle_auth ?l' = 1"
    by simp
  from oracle_never_authorizes [where c = submit_260000_call and s = oracle_authorized_example
      and a = 7 and l' = ?l'] after flag
  have before: "\<exists>l. oracle_locals oracle_authorized_example 7 = Some l \<and> oracle_auth l = 1"
    by blast
  have reg: "oracle_locals ?r 7 = Some ?l"
    by (subst registered_example) simp
  have sender_reg: "oracle_locals ?r (sender submit_260000_call) = Some ?l"
    using reg submit_260000_route by simp
  have route: "application_id submit_260000_call \<noteq> 0 \<and> on_completion submit_260000_call = NoOp \<and>
      application_args submit_260000_call = ''submit'' # [[CHR 0x03, CHR 0xF7, CHR 0xA0]]"
    using submit_260000_route by blast
  note inst = oracle_never_authorizes [where c = submit_260000_call
      and cs = "[opt_in_7_call, authorize_7_call]" and ?c0.0 = deploy_call and a = 7 and l = ?l
      and rest = "[[CHR 0x03, CHR 0xF7, CHR 0xA0]]"]
  from inst reg have zero: "oracle_auth ?l = 0"
    by blast
  from inst route have rejected: "oracle_call submit_260000_call ?r = None"
    by blast
  from inst have "submit_price submit_260000_call ?r = Inl Unauthorized \<or>
      submit_price submit_260000_call ?r = Inl NotRegistered"
    by blast
  moreover have "submit_price submit_260000_call ?r \<noteq> Inl NotRegistered"
    using sender_reg by (simp add: submit_price_def)
  ultimately have unauth: "submit_price submit_260000_call ?r = Inl Unauthorized"
    by blast
  show ?thesis
    using after before reg zero route unauth rejected by blast
qed

section \<open>Counters and reputation\<close>





section \<open>Rejected calls leave the state alone\<close>

text \<open>
  C6. A call whose approval program fails or returns 0 is rejected by the ledger and the
  state of the contract after it, global and local, is the state before it; this holds
  for the oracle, the risk manager and the engine (for an opt-in, the local state set up
  for the program is discarded too). In particular \<open>distribute_yield(1000)\<close> with a
  companion payment of 999 to the application fails with \<open>GroupPaymentMismatch\<close> and
  \<open>yield_pool\<close> is unchanged, and \<open>execute_rebalance\<close> with a slippage above
  \<open>MAX_SLIPPAGE\<close> fails and \<open>rebalance_count\<close> is unchanged.
\<close>

theorem failed_operations_change_nothing:
  "(on_completion oc \<noteq> ClearState \<and>
    \<not> approved (oracle_approval_program oc
         (if on_completion oc = OptIn then oracle_allocate s (sender oc) else s)) \<longrightarrow>
      oracle_call oc s = None \<and> state_after (oracle_call oc s) s = s) \<and>
   (on_completion rc \<noteq> ClearState \<and>
    \<not> approved (risk_approval_program rc
         (if on_completion rc = OptIn then risk_allocate r (sender rc) else r)) \<longrightarrow>
      risk_call rc r = None \<and> state_after (risk_call rc r) r = r) \<and>
   (\<not> approved (engine_approval_program ec e) \<longrightarrow>
      engine_call ec e = None \<and> state_after (engine_call ec e) e = e) \<and>
   (application_id yc \<noteq> 0 \<and> on_completion yc = NoOp \<and>
    application_args yc = [''distribute_yield'', b] \<and> Btoi b = Inr 1000 \<and>
    2 \<le> group_size yc \<and> type_enum (group yc ! 0) = Payment \<and>
    receiver (group yc ! 0) = current_application_address yc \<and> amount (group yc ! 0) = 999 \<longrightarrow>
      distribute_yield yc e = Inl GroupPaymentMismatch \<and> engine_call yc e = None \<and>
      yield_pool (state_after (engine_call yc e) e) = yield_pool e) \<and>
   (application_id xc \<noteq> 0 \<and> on_completion xc = NoOp \<and>
    application_args xc = [''execute_rebalance'', b1, b2, b3] \<and> Btoi b3 = Inr slippage \<and>
    MAX_SLIPPAGE < slippage \<longrightarrow>
      (\<exists>err. execute_rebalance xc e = Inl err) \<and> engine_call xc e = None \<and>
      rebalance_count (state_after (engine_call xc e) e) = rebalance_count e)"
proof -
  have none: "state_after None x = x" for x :: 'a
    by (simp add: state_after_def)
  have orej: "oracle_call oc s = None"
    if "on_completion oc \<noteq> ClearState"
       "\<not> approved (oracle_approval_program oc
          (if on_completion oc = OptIn then oracle_allocate s (sender oc) else s))"
    unfolding oracle_call_def using that by (rule apply_call_rejected)
  have rrej: "risk_call rc r = None"
    if "on_completion rc \<noteq> ClearState"
       "\<not> approved (risk_approval_program rc
          (if on_completion rc = OptIn then risk_allocate r (sender rc) else r))"
    unfolding risk_call_def using that by (rule apply_call_rejected)
  have yield: "distribute_yield yc e = Inl GroupPaymentMismatch \<and> engine_call yc e = None"
    if "application_id yc \<noteq> 0" "on_completion yc = NoOp"
       "application_args yc = [''distribute_yield'', b]" "Btoi b = Inr 1000"
       "2 \<le> group_size yc" "type_enum (group yc ! 0) = Payment"
       "receiver (group yc ! 0) = current_application_address yc" "amount (group yc ! 0) = 999"
  proof -
    have f: "distribute_yield yc e = Inl GroupPaymentMismatch"
      using that(3-8) by (rule distribute_yield_mismatch)
    have "engine_approval_program yc e = distribute_yield yc e"
      using that(1-3) by (rule engine_route_distribute_yield)
    with f have "\<not> approved (engine_approval_program yc e)"
      by (simp add: approved_def)
    with f show ?thesis
      by (simp add: engine_call_rejected)
  qed
  have rebalance: "(\<exists>err. execute_rebalance xc e = Inl err) \<and> engine_call xc e = None"
    if "application_id xc \<noteq> 0" "on_completion xc = NoOp"
       "application_args xc = [''execute_rebalance'', b1, b2, b3]" "Btoi b3 = Inr slippage"
       "MAX_SLIPPAGE < slippage"
  proof -
    from that(3-5) obtain err where f: "execute_rebalance xc e = Inl err"
      using execute_rebalance_slippage by blast
    have "engine_approval_program xc e = execute_rebalance xc e"
      using that(1-3) by (rule engine_route_execute_rebalance)
    with f have "\<not> approved (engine_approval_program xc e)"
      by (simp add: approved_def)
    with f show ?thesis
      by (simp add: engine_call_rejected)
  qed
  show ?thesis
    using orej rrej engine_call_rejected [of ec e] yield rebalance
    by (simp add: none)
qed

theorem failed_operations_change_nothing_witness:
  "on_completion submit_260000_call \<noteq> ClearState \<and>
   \<not> approved (oracle_approval_program submit_260000_call oracle_example) \<and>
   state_after (oracle_call submit_260000_call oracle_example) oracle_example = oracle_example \<and>
   on_completion check_100_200_call \<noteq> ClearState \<and>
   \<not> approved (risk_approval_program check_100_200_call risk_example) \<and>
   state_after (risk_call check_100_200_call risk_example) risk_example = risk_example \<and>
   \<not> approved (engine_approval_program yield_999_call engine_example) \<and>
   state_after (engine_call yield_999_call engine_example) engine_example = engine_example \<and>
   Btoi [CHR 0x03, CHR 0xE8] = Inr 1000 \<and>
   amount (group yield_999_call ! 0) = 999 \<and>
   receiver (group yield_999_call ! 0) = current_application_address yield_999_call \<and>
   distribute_yield yield_999_call engine_example = Inl GroupPaymentMismatch \<and>
   yield_pool (state_after (engine_call yield_999_call engine_example) engine_example) = 40 \<and>
   Btoi [CHR 0x01, CHR 0x2D] = Inr 301 \<and> MAX_SLIPPAGE < 301 \<and>
   (\<exists>err. execute_rebalance rebalance_301_call engine_example = Inl err) \<and>
   rebalance_count (state_after (engine_call rebalance_301_call engine_example) engine_example) = 7"
proof -
  have oc: "on_completion submit_260000_call \<noteq> ClearState \<and>
      on_completion submit_260000_call \<noteq> OptIn"
    by (simp add: submit_260000_call_def)
  have "oracle_locals oracle_example (sender submit_260000_call) =
      Some \<lparr>oracle_auth = 0, oracle_rep = 100, last_sub = 0\<rparr>"
    by (simp add: submit_260000_call_def oracle_example_def)
  then have "submit_price submit_260000_call oracle_example = Inl Unauthorized"
    by (simp add: submit_price_def)
  moreover have "oracle_approval_program submit_260000_call oracle_example =
      submit_price submit_260000_call oracle_example"
    using submit_260000_route by (intro oracle_route_submit) auto
  ultimately have ofail: "\<not> approved (oracle_approval_program submit_260000_call oracle_example)"
    by (simp add: approved_def)
  have rc: "on_completion check_100_200_call \<noteq> ClearState \<and>
      on_completion check_100_200_call \<noteq> OptIn \<and>
      length (application_args check_100_200_call) = 5"
    by (simp add: check_100_200_call_def)
  have rb: "Btoi (application_args check_100_200_call ! 2) = Inr 100 \<and>
      Btoi (application_args check_100_200_call ! 3) = Inr 200 \<and>
      Btoi (application_args check_100_200_call ! 4) = Inr 250000"
    by (simp add: check_100_200_call_def Btoi_def)
  have ratio: "collateral_ratio 100 200 = Inr 5000"
    by (simp add: collateral_ratio_def mul64_def div64_def)
  have "check_liquidation check_100_200_call risk_example = Inr (0, risk_example)"
    using rc rb ratio by (simp add: check_liquidation_def LIQUIDATION_THRESHOLD_def)
  moreover have "risk_approval_program check_100_200_call risk_example =
      check_liquidation check_100_200_call risk_example"
    by (simp add: risk_approval_program_def check_100_200_call_def)
  ultimately have rfail: "\<not> approved (risk_approval_program check_100_200_call risk_example)"
    by (simp add: approved_def)
  have yc: "application_id yield_999_call \<noteq> 0 \<and> on_completion yield_999_call = NoOp \<and>
      application_args yield_999_call = [''distribute_yield'', [CHR 0x03, CHR 0xE8]] \<and>
      2 \<le> group_size yield_999_call \<and> type_enum (group yield_999_call ! 0) = Payment \<and>
      receiver (group yield_999_call ! 0) = current_application_address yield_999_call \<and>
      amount (group yield_999_call ! 0) = 999"
    by (simp add: yield_999_call_def group_size_def)
  have yb: "Btoi [CHR 0x03, CHR 0xE8] = Inr 1000"
    by (simp add: Btoi_def)
  have xc: "application_id rebalance_301_call \<noteq> 0 \<and> on_completion rebalance_301_call = NoOp \<and>
      application_args rebalance_301_call =
        [''execute_rebalance'', [CHR 0x64], [CHR 0x01], [CHR 0x01, CHR 0x2D]]"
    by (simp add: rebalance_301_call_def)
  have xb: "Btoi [CHR 0x01, CHR 0x2D] = Inr 301 \<and> MAX_SLIPPAGE < 301"
    by (simp add: Btoi_def MAX_SLIPPAGE_def)
  have pool: "yield_pool engine_example = 40 \<and> rebalance_count engine_example = 7"
    by (simp add: engine_example_def)
  note inst = failed_operations_change_nothing [where oc = submit_260000_call and s = oracle_example
      and rc = check_100_200_call and r = risk_example and ec = yield_999_call
      and e = engine_example and yc = yield_999_call and b = "[CHR 0x03, CHR 0xE8]"
      and xc = rebalance_301_call and ?b1.0 = "[CHR 0x64]" and ?b2.0 = "[CHR 0x01]"
      and ?b3.0 = "[CHR 0x01, CHR 0x2D]" and slippage = 301]
  have ofail': "\<not> approved (oracle_approval_program submit_260000_call
      (if on_completion submit_260000_call = OptIn
       then oracle_allocate oracle_example (sender submit_260000_call) else oracle_example))"
    using oc ofail by simp
  have rfail': "\<not> approved (risk_approval_program check_100_200_call
      (if on_completion check_100_200_call = OptIn
       then risk_allocate risk_example (sender check_100_200_call) else risk_example))"
    using rc rfail by simp
  from inst oc ofail'
  have o: "state_after (oracle_call submit_260000_call oracle_example) oracle_example = oracle_example"
    by blast
  from inst rc rfail'
  have r: "state_after (risk_call check_100_200_call risk_example) risk_example = risk_example"
    by blast
  from inst yc yb
  have y: "distribute_yield yield_999_call engine_example = Inl GroupPaymentMismatch \<and>
      engine_call yield_999_call engine_example = None \<and>
      yield_pool (state_after (engine_call yield_999_call engine_example) engine_example) =
        yield_pool engine_example"
    by blast
  then have yfail: "\<not> approved (engine_approval_program yield_999_call engine_example)"
    using yc engine_route_distribute_yield [of yield_999_call "[[CHR 0x03, CHR 0xE8]]" engine_example]
    by (simp add: approved_def)
  from inst yfail
  have e: "state_after (engine_call yield_999_call engine_example) engine_example = engine_example"
    by blast
  from y have yq: "yield_pool (state_after (engine_call yield_999_call engine_example)
      engine_example) = yield_pool engine_example"
    by blast
  have y40: "yield_pool (state_after (engine_call yield_999_call engine_example)
      engine_example) = 40"
    by (simp only: yq pool)
  from inst xc xb
  have x: "(\<exists>err. execute_rebalance rebalance_301_call engine_example = Inl err) \<and>
      rebalance_count (state_after (engine_call rebalance_301_call engine_example) engine_example) =
        rebalance_count engine_example"
    by blast
  then have xq: "rebalance_count (state_after (engine_call rebalance_301_call engine_example)
      engine_example) = rebalance_count engine_example"
    by blast
  have x7: "rebalance_count (state_after (engine_call rebalance_301_call engine_example)
      engine_example) = 7"
    by (simp only: xq pool)
  show ?thesis
    using oc ofail o rc rfail r yfail e yb yc y y40 xb x x7 by blast
qed

end
